theory Spec2Isabelle
  imports Complex_Main "HOL-Library.Sublist"
begin

section \<open>Data model\<close>

text \<open>
  The sources are TypeScript. JavaScript numbers that carry confidences and scores are
  modelled as \<^typ>\<open>real\<close>, counters and lengths as \<^typ>\<open>nat\<close>, clock readings
  (milliseconds) as \<^typ>\<open>int\<close>. Arithmetic on the reals is exact; the rounding of
  double precision is written out where a property depends on it (\<open>binary64\<close> and
  \<open>generateSummary_fl\<close> below). A JavaScript string is the list of its UTF-16 code
  units, each a number below 65536. The literals of the modelled classes only have code
  units below 256 and are written as Isabelle strings under \<open>utf16\<close> (the accented letters
  of the Portuguese messages by their numbers); the pictographs of the messages are
  fragments of their own. Text that interpolates numbers is kept as a list of fragments,
  one per piece of the template literal, so that no number formatting has to be invented.
\<close>

type_synonym jsstring = "nat list"

datatype fragment =
    S jsstring          \<comment> \<open>literal text or an interpolated string\<close>
  | N int               \<comment> \<open>an interpolated integer-valued number\<close>
  | R real              \<comment> \<open>an interpolated number, default formatting\<close>
  | Fixed nat real      \<comment> \<open>\<^verbatim>\<open>x.toFixed(d)\<close>\<close>
  | U nat               \<comment> \<open>one code unit above 255 (a pictograph)\<close>
  | LocaleString int    \<comment> \<open>\<^verbatim>\<open>new Date(t).toLocaleString()\<close>\<close>

type_synonym message = "fragment list"

text \<open>
  The code units of a text written with characters of the first 256: each character is the
  code unit of the same number.
\<close>

definition utf16 :: "char list \<Rightarrow> jsstring" where
  "utf16 s = map of_char s"

text \<open>
  \<^verbatim>\<open>ClineDefaultTool\<close> is a string enum imported from \<^verbatim>\<open>@shared/tools\<close>, whose
  declaration is not part of the sources. A tool name is the string it is at run time; the
  enum members the code mentions are taken as a parameter \<open>T\<close> of every function that
  uses one.
\<close>

record ClineDefaultTool =
  SEARCH :: jsstring
  FILE_READ :: jsstring
  LIST_FILES :: jsstring
  FILE_EDIT :: jsstring
  FILE_NEW :: jsstring
  REASONING :: jsstring

text \<open>
  \<^verbatim>\<open>ToolResponse\<close> is a string or a structured value. Of a structured value the code
  only looks at \<^verbatim>\<open>String(result.content)\<close>, when it has a \<^verbatim>\<open>content\<close> property, and at
  \<^verbatim>\<open>JSON.stringify(result)\<close>; both are carried along.
\<close>

datatype ToolResponse =
    Text jsstring
  | Structured (content: "jsstring option") (stringified: jsstring)

text \<open>
  Tool parameters are of type \<^verbatim>\<open>any\<close>; the code reads the properties \<^verbatim>\<open>regex\<close>,
  \<^verbatim>\<open>query\<close> and \<^verbatim>\<open>path\<close> and serialises the whole object with \<^verbatim>\<open>JSON.stringify\<close>.
\<close>

record ToolParams =
  p_regex :: "jsstring option"
  p_query :: "jsstring option"
  p_path :: "jsstring option"
  p_stringified :: jsstring

datatype Phase = EXPLORE | THINK | EXECUTE

record ExplorationEntry =
  toolName :: jsstring
  query :: jsstring
  result :: ToolResponse
  confidence :: real
  tags :: "jsstring list"
  filePath :: "jsstring option"
  timestamp :: int
  relevance :: real
  toolParams :: ToolParams

record ExplorationSummary =
  totalEntries :: nat
  filesExplored :: nat
  searchQueries :: nat
  listOperations :: nat
  keyFindings :: "jsstring list"
  confidenceScore :: real

record ExplorationScratchpad =
  entries :: "ExplorationEntry list"
  cache :: "jsstring \<rightharpoonup> ExplorationEntry"
  currentPhase :: Phase
  explorationStartTime :: int

record ToughReasoningResult =
  conclusion :: message
  tough_confidence :: real
  iterations :: nat
  reasoningSteps :: "message list"

subsection \<open>ThinkingEngine\<close>

record ThinkingStep =
  step_timestamp :: int
  step_phase :: Phase
  action :: jsstring
  reasoning :: message
  step_confidence :: real
  evidence :: "message list"
  nextActions :: "jsstring list"

record ThinkingEngine =
  thinkingSteps :: "ThinkingStep list"
  startTime :: int
  currentTask :: jsstring

record DecisionContext =
  task :: jsstring
  context_currentPhase :: Phase
  availableEvidence :: "ExplorationEntry list"
  context_confidence :: real
  timeSpent :: int
  previousDecisions :: "ThinkingStep list"

record BeforeAction =
  shouldProceed :: bool
  before_reasoning :: jsstring
  before_confidence :: real

record ResultAnalysis =
  insights :: "jsstring list"
  shouldTransition :: bool
  analysis_nextActions :: "jsstring list"

record FinalDecision =
  decision :: jsstring
  decision_confidence :: real
  actionPlan :: "jsstring list"
  decision_reasoning :: message

subsection \<open>IntelligentThinkingSystem\<close>

datatype ThoughtPhase = T_EXPLORE | T_THINK | T_EXECUTE | T_REFLECT

datatype ActionType = tool_use | analysis | decision_action

datatype ActionParams =
    AP_type jsstring
  | AP_strategy "jsstring list"
  | AP_focus jsstring
  | AP_explorationStrategy "jsstring list"
  | AP_reflection_type jsstring

record IntelligentThought =
  thought_id :: message
  thought_timestamp :: int
  thought_phase :: ThoughtPhase
  thought :: message
  thought_confidence :: real
  thought_evidence :: "message list"
  triggersAction :: bool
  actionType :: "ActionType option"
  actionParams :: "ActionParams option"
  reflection :: "message option"

record ConversationContext =
  taskDescription :: jsstring
  currentIteration :: nat
  totalIterations :: nat
  context_thoughtChain :: "IntelligentThought list"
  accumulatedKnowledge :: "jsstring \<rightharpoonup> jsstring"
  currentFocus :: jsstring
  lastActionResult :: "ToolResponse option"
  convergenceLevel :: real

record IntelligentThinkingSystem =
  thoughtChain :: "IntelligentThought list"
  conversationContext :: ConversationContext
  isThinkingActive :: bool
  convergenceThreshold :: real

record Analysis =
  needsMoreExploration :: bool
  needsDeepReasoning :: bool
  canMakeDecision :: bool
  explorationStrategy :: "jsstring list"
  reasoningFocus :: jsstring

record ThinkingLoopResult =
  finalDecision :: jsstring
  loop_confidence :: real
  thoughtProcess :: "IntelligentThought list"

section \<open>The environment\<close>

text \<open>
  \<^verbatim>\<open>Date.now()\<close> and \<^verbatim>\<open>Math.random()\<close> are inputs of the program. The environment
  supplies the sequence of clock readings and of random suffixes; the counters say how
  many have been taken. Pauses (\<^verbatim>\<open>setTimeout\<close>) only let time pass and are part of
  the sequence of readings; \<^verbatim>\<open>console.log\<close> is output only and is left out.
\<close>

record Env =
  now_readings :: "nat \<Rightarrow> int"
  now_count :: nat
  random_readings :: "nat \<Rightarrow> jsstring"
  random_count :: nat

definition Date_now :: "Env \<Rightarrow> int \<times> Env" where
  "Date_now e = (now_readings e (now_count e), e\<lparr>now_count := Suc (now_count e)\<rparr>)"

definition Math_random_suffix :: "Env \<Rightarrow> jsstring \<times> Env" where
  "Math_random_suffix e = (random_readings e (random_count e), e\<lparr>random_count := Suc (random_count e)\<rparr>)"

text \<open>
  One task owns one scratchpad, one thinking engine and one intelligent thinking system;
  the engine and the system are constructed with a reference to the same scratchpad, so
  the model holds them side by side with the environment.
\<close>

record World =
  pad :: ExplorationScratchpad
  env :: Env
  thinkingEngine :: ThinkingEngine
  intelligentThinkingSystem :: IntelligentThinkingSystem

section \<open>Double-precision arithmetic\<close>

text \<open>
  A JavaScript number is an IEEE 754 double: 53 significant bits, the exponent of the last
  bit no smaller than -1074, and every addition and division rounded to the nearest
  double, a tie to the one whose last bit is even. \<open>binary64 x\<close> is the double nearest to
  the real \<open>x\<close>; results beyond the largest double (overflow) are not followed.
\<close>

definition round_ties_to_even :: "real \<Rightarrow> int" where
  "round_ties_to_even q =
     (let f = \<lfloor>q\<rfloor>; d = q - of_int f
      in if d < 1 / 2 then f else if 1 / 2 < d then f + 1 else if even f then f else f + 1)"

definition binary64 :: "real \<Rightarrow> real" where
  "binary64 x =
     (if x = 0 then 0
      else let e = max (\<lfloor>log 2 \<bar>x\<bar>\<rfloor> - 52) (- 1074)
           in of_int (round_ties_to_even (x / 2 powr of_int e)) * 2 powr of_int e)"

text \<open>
  Half the distance between 1 and the next double, and the smallest double with 53
  significant bits.
\<close>

definition unit_roundoff :: real where
  "unit_roundoff = 2 powr (- 53)"

definition smallest_normal :: real where
  "smallest_normal = 2 powr (- 1022)"

section \<open>ExplorationScratchpad\<close>

text \<open>
  The constructor: empty log, empty cache, phase EXPLORE. The start time is read from the
  clock twice, by the field initialiser and again by the constructor body.
\<close>

definition new_ExplorationScratchpad :: "Env \<Rightarrow> ExplorationScratchpad \<times> Env" where
  "new_ExplorationScratchpad e =
     (let (t0, e0) = Date_now e;
          (t1, e1) = Date_now e0
      in (\<lparr>entries = [], cache = Map.empty, currentPhase = EXPLORE, explorationStartTime = t1\<rparr>, e1))"

text \<open>
  \<^verbatim>\<open>String.prototype.toLowerCase\<close> is the lower-casing of the Unicode standard,
  applied to the whole string. It is followed on the code units below 256 and the three
  forms of the Greek sigma (931 capital, 962 final, 963 small):
  \<^item> the letters A to Z (65 to 90) and the accented capitals 192 to 222, but not the
    multiplication sign 215, move up by 32;
  \<^item> a capital sigma becomes a final sigma when it ends a word, that is when the nearest
    character before it that is not case-ignorable is a cased letter and the nearest one
    after it that is not case-ignorable is not (or there is none), and a small sigma
    otherwise;
  \<^item> every other code unit stays.

  The cased letters of this repertoire are the letters A to Z and a to z, the ordinal
  indicators 170 and 186, the micro sign 181, the letters 192 to 255 without the signs
  215 and 247, and the sigmas; the case-ignorable characters are the apostrophe, the full
  stop, the colon, the circumflex, the grave accent, the diaeresis 168, the soft hyphen
  173, the macron 175, the acute accent 180, the middle dot 183 and the cedilla 184.
  What the function returns on a string with a code unit outside this repertoire is left
  open.
\<close>

definition cased :: "nat \<Rightarrow> bool" where
  "cased c = ((65 \<le> c \<and> c \<le> 90) \<or> (97 \<le> c \<and> c \<le> 122) \<or> c = 170 \<or> c = 181 \<or> c = 186
     \<or> (192 \<le> c \<and> c \<le> 214) \<or> (216 \<le> c \<and> c \<le> 246) \<or> (248 \<le> c \<and> c \<le> 255)
     \<or> c = 931 \<or> c = 962 \<or> c = 963)"

definition case_ignorable :: "nat \<Rightarrow> bool" where
  "case_ignorable c = (c \<in> set [39, 46, 58, 94, 96, 168, 173, 175, 180, 183, 184])"

definition followed_by_cased :: "jsstring \<Rightarrow> bool" where
  "followed_by_cased s = (case dropWhile case_ignorable s of [] \<Rightarrow> False | c # _ \<Rightarrow> cased c)"

definition toLowerCase_unit :: "nat \<Rightarrow> nat" where
  "toLowerCase_unit c =
     (if (65 \<le> c \<and> c \<le> 90) \<or> (192 \<le> c \<and> c \<le> 222 \<and> c \<noteq> 215) then c + 32 else c)"

fun toLowerCase_from :: "jsstring \<Rightarrow> jsstring \<Rightarrow> jsstring" where
  "toLowerCase_from before [] = []"
| "toLowerCase_from before (c # rest) =
     (if c = 931 then (if followed_by_cased before \<and> \<not> followed_by_cased rest then 962 else 963)
      else toLowerCase_unit c)
     # toLowerCase_from (c # before) rest"

definition in_repertoire :: "nat \<Rightarrow> bool" where
  "in_repertoire c = (c < 256 \<or> c = 931 \<or> c = 962 \<or> c = 963)"

definition toLowerCase :: "jsstring \<Rightarrow> jsstring" where
  "toLowerCase s = (if list_all in_repertoire s then toLowerCase_from [] s else undefined s)"

text \<open>
  \<^verbatim>\<open>generateCacheKey\<close>: the optional path is appended when it is truthy, that is when it is
  given and not the empty string.
\<close>

definition generateCacheKey :: "jsstring \<Rightarrow> jsstring \<Rightarrow> jsstring option \<Rightarrow> jsstring" where
  "generateCacheKey tool q fp =
     (let baseKey = tool @ utf16 '':'' @ q;
          baseKey' = (case fp of
                        None \<Rightarrow> baseKey
                      | Some p \<Rightarrow> if p \<noteq> [] then baseKey @ utf16 '':'' @ p else baseKey)
      in toLowerCase baseKey')"

text \<open>
  \<^verbatim>\<open>addEntry\<close>: the entry gets the current clock reading as its timestamp, is pushed on
  the log and written into the cache, and the log is sorted by descending timestamp
  (\<^verbatim>\<open>Array.prototype.sort\<close> is stable, as \<^const>\<open>sort_key\<close> is).
\<close>

definition addEntry :: "ExplorationEntry \<Rightarrow> World \<Rightarrow> World" where
  "addEntry entry w =
     (let (t, e') = Date_now (env w);
          fullEntry = entry\<lparr>timestamp := t\<rparr>;
          pushed = entries (pad w) @ [fullEntry];
          cacheKey = generateCacheKey (toolName entry) (query entry) (filePath entry)
      in w\<lparr>pad := (pad w)\<lparr>entries := sort_key (\<lambda>e. - timestamp e) pushed,
                             cache := (cache (pad w))(cacheKey \<mapsto> fullEntry)\<rparr>,
            env := e'\<rparr>)"

definition hasExplored :: "ExplorationScratchpad \<Rightarrow> jsstring \<Rightarrow> jsstring \<Rightarrow> jsstring option \<Rightarrow> bool" where
  "hasExplored s tool q fp = (cache s (generateCacheKey tool q fp) \<noteq> None)"

definition getCachedResult :: "ExplorationScratchpad \<Rightarrow> jsstring \<Rightarrow> jsstring \<Rightarrow> jsstring option \<Rightarrow> ExplorationEntry option" where
  "getCachedResult s tool q fp = cache s (generateCacheKey tool q fp)"

definition keyFinding :: "ExplorationEntry \<Rightarrow> jsstring" where
  "keyFinding entry =
     (case result entry of
        Text str \<Rightarrow> take 100 str @ utf16 ''...''
      | Structured (Some c) _ \<Rightarrow> take 100 c @ utf16 ''...''
      | Structured None _ \<Rightarrow> utf16 ''Explored '' @ toolName entry @ utf16 '' for '' @ query entry)"

definition generateSummary :: "ClineDefaultTool \<Rightarrow> ExplorationScratchpad \<Rightarrow> ExplorationSummary" where
  "generateSummary T s =
     (let files = length (filter (\<lambda>entry. toolName entry = FILE_READ T \<or> toolName entry = LIST_FILES T) (entries s));
          searches = length (filter (\<lambda>entry. toolName entry = SEARCH T) (entries s));
          lists = length (filter (\<lambda>entry. toolName entry = LIST_FILES T) (entries s));
          highConfidenceEntries = filter (\<lambda>entry. confidence entry > 8 / 10) (entries s);
          findings = map keyFinding highConfidenceEntries;
          totalConfidence = foldl (\<lambda>sum entry. sum + confidence entry) 0 (entries s);
          score = (if length (entries s) > 0 then totalConfidence / real (length (entries s)) else 0)
      in \<lparr>totalEntries = length (entries s),
          filesExplored = files,
          searchQueries = searches,
          listOperations = lists,
          keyFindings = findings,
          confidenceScore = score\<rparr>)"

text \<open>
  \<^verbatim>\<open>generateSummary\<close> with the rounding of its arithmetic written out: \<open>fl\<close> rounds the
  literal 0.8, every addition of the \<^verbatim>\<open>reduce\<close> and the division. With the identity for
  \<open>fl\<close> it is \<open>generateSummary\<close>, with \<open>binary64\<close> it computes what the machine computes.
\<close>

definition generateSummary_fl ::
  "(real \<Rightarrow> real) \<Rightarrow> ClineDefaultTool \<Rightarrow> ExplorationScratchpad \<Rightarrow> ExplorationSummary" where
  "generateSummary_fl fl T s =
     (let files = length (filter (\<lambda>entry. toolName entry = FILE_READ T \<or> toolName entry = LIST_FILES T) (entries s));
          searches = length (filter (\<lambda>entry. toolName entry = SEARCH T) (entries s));
          lists = length (filter (\<lambda>entry. toolName entry = LIST_FILES T) (entries s));
          highConfidenceEntries = filter (\<lambda>entry. confidence entry > fl (8 / 10)) (entries s);
          findings = map keyFinding highConfidenceEntries;
          totalConfidence = foldl (\<lambda>sum entry. fl (sum + confidence entry)) 0 (entries s);
          score = (if length (entries s) > 0 then fl (totalConfidence / real (length (entries s))) else 0)
      in \<lparr>totalEntries = length (entries s),
          filesExplored = files,
          searchQueries = searches,
          listOperations = lists,
          keyFindings = findings,
          confidenceScore = score\<rparr>)"

definition transitionToNextPhase :: "ExplorationScratchpad \<Rightarrow> ExplorationScratchpad" where
  "transitionToNextPhase s =
     (case currentPhase s of
        EXPLORE \<Rightarrow> s\<lparr>currentPhase := THINK\<rparr>
      | THINK \<Rightarrow> s\<lparr>currentPhase := EXECUTE\<rparr>
      | EXECUTE \<Rightarrow> s)"

definition getCurrentPhase :: "ExplorationScratchpad \<Rightarrow> Phase" where
  "getCurrentPhase s = currentPhase s"

text \<open>A phase as the string it is at run time.\<close>

definition Phase_name :: "Phase \<Rightarrow> jsstring" where
  "Phase_name ph = (case ph of EXPLORE \<Rightarrow> utf16 ''EXPLORE'' | THINK \<Rightarrow> utf16 ''THINK'' | EXECUTE \<Rightarrow> utf16 ''EXECUTE'')"

definition getExplorationDuration :: "World \<Rightarrow> int \<times> World" where
  "getExplorationDuration w =
     (let (t, e') = Date_now (env w) in (t - explorationStartTime (pad w), w\<lparr>env := e'\<rparr>))"

subsection \<open>Tough reasoning\<close>

text \<open>\<^verbatim>\<open>Array.prototype.join\<close>, for strings and for messages.\<close>

fun join :: "'a list \<Rightarrow> 'a list list \<Rightarrow> 'a list" where
  "join sep [] = []"
| "join sep [x] = x"
| "join sep (x # y # ys) = x @ sep @ join sep (y # ys)"

definition identifyProblemScope :: "ExplorationSummary \<Rightarrow> message" where
  "identifyProblemScope summary =
     (if totalEntries summary < 2 then [S (utf16 ''Too early to determine scope'')]
      else [S (utf16 ''Exploring ''), N (int (filesExplored summary)), S (utf16 '' files with ''),
            N (int (searchQueries summary)), S (utf16 '' searches'')])"

definition evaluateEvidenceQuality :: "ExplorationSummary \<Rightarrow> message" where
  "evaluateEvidenceQuality summary =
     (let quality = (if confidenceScore summary > 0.8 then utf16 ''High''
                     else if confidenceScore summary > 0.6 then utf16 ''Medium'' else utf16 ''Low'')
      in [S quality, S (utf16 '' quality (''), N (round (confidenceScore summary * 100)), S (utf16 ''% confidence)'')])"

definition identifyPatterns :: "ExplorationScratchpad \<Rightarrow> jsstring" where
  "identifyPatterns s =
     (let fileReads = length (filter (\<lambda>e. toolName e = utf16 ''read_file'') (entries s));
          searches = length (filter (\<lambda>e. toolName e = utf16 ''search_files'') (entries s));
          lists = length (filter (\<lambda>e. toolName e = utf16 ''list_files'') (entries s))
      in if fileReads > searches + lists then utf16 ''Code-focused exploration''
         else if searches > fileReads + lists then utf16 ''Search-driven investigation''
         else if lists > fileReads + searches then utf16 ''Structure mapping''
         else utf16 ''Balanced exploration approach'')"

definition performDeepAnalysis :: "ExplorationSummary \<Rightarrow> World \<Rightarrow> message \<times> World" where
  "performDeepAnalysis summary w =
     (let (duration, w') = getExplorationDuration w;
          efficiency = real (totalEntries summary) / max (real_of_int duration / 1000) 1
      in ([S (utf16 ''Analysis efficiency: ''), Fixed 2 efficiency, S (utf16 '' actions/second'')], w'))"

definition calculateSophisticatedConfidence :: "ExplorationSummary \<Rightarrow> nat \<Rightarrow> World \<Rightarrow> real \<times> World" where
  "calculateSophisticatedConfidence summary iters w =
     (let baseConfidence = confidenceScore summary;
          explorationDepth = min 1 (real (totalEntries summary) / 10);
          iterationBonus = min 0.2 (real iters * 0.05);
          (duration, w') = getExplorationDuration w;
          timeBonus = min 0.1 (real_of_int duration / 60000)
      in (min 1 (baseConfidence * explorationDepth + iterationBonus + timeBonus), w'))"

definition generateConclusion :: "ExplorationSummary \<Rightarrow> message" where
  "generateConclusion summary =
     (if totalEntries summary = 0 then [S (utf16 ''No exploration data available'')]
      else
        (let findings =
               [[S (utf16 ''Explored ''), N (int (totalEntries summary)), S (utf16 '' items'')],
                [S (utf16 ''Found ''), N (int (filesExplored summary)), S (utf16 '' relevant files'')],
                [S (utf16 ''Performed ''), N (int (searchQueries summary)), S (utf16 '' search queries'')],
                [S (utf16 ''Overall confidence: ''), Fixed 1 (confidenceScore summary * 100), S (utf16 ''%'')]];
             findings' =
               (if length (keyFindings summary) > 0
                then findings @ [[S (utf16 ''Key findings: ''), S (join (utf16 '', '') (take 3 (keyFindings summary)))]]
                else findings)
         in join [S (utf16 ''. '')] findings' @ [S (utf16 ''. Ready to proceed with execution.'')]))"

definition generateDetailedConclusion :: "ExplorationScratchpad \<Rightarrow> ExplorationSummary \<Rightarrow> message list \<Rightarrow> message" where
  "generateDetailedConclusion s summary steps =
     (let conclusion' = generateConclusion summary;
          patterns = identifyPatterns s;
          evidenceQuality = evaluateEvidenceQuality summary
      in conclusion' @ [S (utf16 [CHR 0x0A, CHR 0x0A]), S (utf16 ''Analysis Summary:''), S (utf16 [CHR 0x0A]),
           S (utf16 ''- Evidence Quality: '')] @ evidenceQuality @ [S (utf16 [CHR 0x0A]),
           S (utf16 ''- Exploration Pattern: ''), S patterns, S (utf16 [CHR 0x0A]),
           S (utf16 ''- Reasoning Iterations: ''), N (int (length steps)), S (utf16 [CHR 0x0A]),
           S (utf16 ''- Total Data Points: ''), N (int (totalEntries summary))])"

text \<open>
  The body of the \<^verbatim>\<open>for\<close> loop of \<^verbatim>\<open>toughReasoning\<close>, up to the computation of the
  confidence: it returns the summary, the reasoning steps so far and the confidence of
  this iteration.
\<close>

definition toughReasoning_body ::
  "ClineDefaultTool \<Rightarrow> nat \<Rightarrow> message list \<Rightarrow> World \<Rightarrow> ExplorationSummary \<times> message list \<times> real \<times> World" where
  "toughReasoning_body T iters steps w =
     (let summary = generateSummary T (pad w);
          steps1 = steps @ [[S (utf16 ''Iteration ''), N (int iters), S (utf16 '': Analyzing ''),
                             N (int (totalEntries summary)), S (utf16 '' exploration entries'')]];
          (line, w1) =
            (if iters = 1 then (S (utf16 ''  - Problem scope: '') # identifyProblemScope summary, w)
             else if iters = 2 then (S (utf16 ''  - Evidence quality: '') # evaluateEvidenceQuality summary, w)
             else if iters = 3 then ([S (utf16 ''  - Patterns identified: ''), S (identifyPatterns (pad w))], w)
             else (let (m, w') = performDeepAnalysis summary w in (S (utf16 ''  - Deep analysis: '') # m, w')));
          steps2 = steps1 @ [line];
          (conf, w2) = calculateSophisticatedConfidence summary iters w1
      in (summary, steps2, conf, w2))"

text \<open>
  The loop, with its variables as arguments: \<open>iters\<close> is the loop counter
  \<^verbatim>\<open>iterations\<close>, which the function returns as it stands when the loop is left, by
  \<^verbatim>\<open>break\<close> or by the loop condition.
\<close>

function toughReasoning_for ::
  "ClineDefaultTool \<Rightarrow> nat \<Rightarrow> real \<Rightarrow> nat \<Rightarrow> real \<Rightarrow> message \<Rightarrow> message list \<Rightarrow> World
     \<Rightarrow> ToughReasoningResult \<times> World" where
  "toughReasoning_for T maxIterations minConfidence iters currentConfidence concl steps w =
     (if iters \<le> maxIterations then
        (let (summary, steps2, conf, w2) = toughReasoning_body T iters steps w
         in if conf \<ge> minConfidence then
              (\<lparr>conclusion = generateDetailedConclusion (pad w2) summary steps2,
                tough_confidence = conf,
                iterations = iters,
                reasoningSteps = steps2 @ [[S (utf16 ''  - Final conclusion reached with ''),
                                            N (round (conf * 100)), S (utf16 ''% confidence'')]]\<rparr>, w2)
            else toughReasoning_for T maxIterations minConfidence (iters + 1) conf concl steps2 w2)
      else (\<lparr>conclusion = concl, tough_confidence = currentConfidence,
              iterations = iters, reasoningSteps = steps\<rparr>, w))"
  by pat_completeness auto
termination
  by (relation "measure (\<lambda>(T, maxIterations, minConfidence, iters, rest). Suc maxIterations - iters)") auto

declare toughReasoning_for.simps [simp del]

definition toughReasoning :: "ClineDefaultTool \<Rightarrow> nat \<Rightarrow> real \<Rightarrow> World \<Rightarrow> ToughReasoningResult \<times> World" where
  "toughReasoning T maxIterations minConfidence w =
     toughReasoning_for T maxIterations minConfidence 1 0 [S (utf16 ''Insufficient data for conclusion'')] [] w"

section \<open>ThinkingEngine\<close>

datatype error = TypeError

text \<open>The constructor; the start time is read twice, as in the scratchpad.\<close>

definition new_ThinkingEngine :: "Env \<Rightarrow> ThinkingEngine \<times> Env" where
  "new_ThinkingEngine e =
     (let (t0, e0) = Date_now e;
          (t1, e1) = Date_now e0
      in (\<lparr>thinkingSteps = [], startTime = t1, currentTask = []\<rparr>, e1))"

definition addThinkingStep ::
  "Phase \<Rightarrow> jsstring \<Rightarrow> message \<Rightarrow> real \<Rightarrow> message list \<Rightarrow> jsstring list \<Rightarrow> World \<Rightarrow> World" where
  "addThinkingStep ph act rsn conf ev nxt w =
     (let (t, e') = Date_now (env w);
          step = \<lparr>step_timestamp = t, step_phase = ph, action = act, reasoning = rsn,
                  step_confidence = conf, evidence = ev, nextActions = nxt\<rparr>
      in w\<lparr>env := e',
            thinkingEngine := (thinkingEngine w)\<lparr>thinkingSteps := thinkingSteps (thinkingEngine w) @ [step]\<rparr>\<rparr>)"

text \<open>
  The operator \<^verbatim>\<open>||\<close>: the left operand when it is truthy, else the right one. A
  string property is falsy when it is missing or empty, a number when it is zero.
\<close>

definition or_string :: "jsstring option \<Rightarrow> jsstring \<Rightarrow> jsstring" where
  "or_string a d = (case a of None \<Rightarrow> d | Some s \<Rightarrow> if s \<noteq> [] then s else d)"

definition or_number :: "real \<Rightarrow> real \<Rightarrow> real" where
  "or_number x d = (if x \<noteq> 0 then x else d)"

definition extractQueryFromTool :: "ClineDefaultTool \<Rightarrow> jsstring \<Rightarrow> ToolParams \<Rightarrow> jsstring" where
  "extractQueryFromTool T tool params =
     (if tool = SEARCH T then or_string (p_regex params) (or_string (p_query params) [])
      else if tool = FILE_READ T then or_string (p_path params) []
      else if tool = LIST_FILES T then or_string (p_path params) []
      else p_stringified params)"

definition evaluateToolRelevance :: "ClineDefaultTool \<Rightarrow> jsstring \<Rightarrow> Phase \<Rightarrow> ExplorationSummary \<Rightarrow> real" where
  "evaluateToolRelevance T tool ph summary =
     (if ph = EXPLORE \<and> List.member [SEARCH T, FILE_READ T, LIST_FILES T] tool then 0.9
      else if ph = EXECUTE \<and> List.member [FILE_EDIT T, FILE_NEW T] tool
        then (if confidenceScore summary > 0.7 then 0.9 else 0.5)
      else if tool = REASONING T then 0.95
      else 0.6)"

definition hasSufficientEvidenceForAction :: "ClineDefaultTool \<Rightarrow> jsstring \<Rightarrow> ExplorationSummary \<Rightarrow> bool" where
  "hasSufficientEvidenceForAction T tool summary =
     (if List.member [SEARCH T, FILE_READ T, LIST_FILES T] tool then True
      else if List.member [FILE_EDIT T, FILE_NEW T] tool
        then confidenceScore summary > 0.8 \<and> totalEntries summary > 5
      else totalEntries summary > 0)"

definition buildActionReasoning :: "jsstring \<Rightarrow> ToolParams \<Rightarrow> real \<Rightarrow> bool \<Rightarrow> Phase \<Rightarrow> jsstring" where
  "buildActionReasoning tool params rel sufficientEvidence ph =
     (let r0 = utf16 (''Avaliando execu'' @ [CHR 0xE7, CHR 0xE3] @ ''o de '') @ tool;
          r1 = (if rel > 0.8 then r0 @ utf16 '' - ferramenta altamente relevante para fase atual''
                else if rel < 0.5 then r0 @ utf16 ('' - ferramenta tem baixa relev'' @ [CHR 0xE2]
                    @ ''ncia, mas pode ser necess'' @ [CHR 0xE1] @ ''ria'')
                else r0);
          r2 = (if \<not> sufficientEvidence
                then r1 @ utf16 (''. Aten'' @ [CHR 0xE7, CHR 0xE3] @ ''o: evid'' @ [CHR 0xEA]
                    @ ''ncias podem ser insuficientes para a'' @ [CHR 0xE7, CHR 0xE3] @ ''o decisiva'')
                else r1)
      in r2 @ utf16 ''. Fase atual: '' @ Phase_name ph)"

definition calculateActionConfidence :: "real \<Rightarrow> bool \<Rightarrow> real \<Rightarrow> real" where
  "calculateActionConfidence toolRelevance sufficientEvidence scratchpadConfidence =
     (let c0 = (toolRelevance + scratchpadConfidence) / 2;
          c1 = (if \<not> sufficientEvidence then c0 * 0.8 else c0)
      in min 1.0 c1)"

text \<open>\<^verbatim>\<open>String.prototype.includes\<close>.\<close>

fun str_includes :: "'a list \<Rightarrow> 'a list \<Rightarrow> bool" where
  "str_includes [] sub = (sub = [])"
| "str_includes (ch # rest) sub = (prefix sub (ch # rest) \<or> str_includes rest sub)"

definition calculateResultConfidence :: "ToolResponse \<Rightarrow> real" where
  "calculateResultConfidence res =
     (case res of
        Text str \<Rightarrow>
          if str_includes str (utf16 ''error'') \<or> str_includes str (utf16 ''not found'') then 0.3
          else if length str > 100 then 0.9
          else 0.7
      | Structured _ _ \<Rightarrow> 0.8)"

definition generateResultTags :: "ClineDefaultTool \<Rightarrow> jsstring \<Rightarrow> ToolParams \<Rightarrow> jsstring list" where
  "generateResultTags T tool params =
     (let tags0 = [tool];
          tags1 = (if or_string (p_path params) [] \<noteq> [] then tags0 @ [utf16 ''file_specific''] else tags0);
          tags2 = (if tool = SEARCH T then tags1 @ [utf16 ''search'', utf16 ''discovery''] else tags1);
          tags3 = (if tool = FILE_READ T then tags2 @ [utf16 ''content_analysis''] else tags2);
          tags4 = (if tool = LIST_FILES T then tags3 @ [utf16 ''structure_mapping''] else tags3)
      in tags4)"

definition extractInsightsFromResult :: "jsstring \<Rightarrow> ToolResponse \<Rightarrow> ToolParams \<Rightarrow> jsstring list" where
  "extractInsightsFromResult tool res params =
     (let found =
            (case res of
               Text str \<Rightarrow>
                 (if str_includes str (utf16 ''package.json'') then [utf16 (''Encontrado arquivo de configura''
                     @ [CHR 0xE7, CHR 0xE3] @ ''o principal'')] else [])
                 @ (if str_includes str (utf16 ''src/'') \<or> str_includes str (utf16 ''lib/'')
                    then [utf16 (''Identificada estrutura de c'' @ [CHR 0xF3] @ ''digo fonte'')] else [])
                 @ (if str_includes str (utf16 ''error'') \<or> str_includes str (utf16 ''not found'')
                    then [utf16 (''Resultado indica poss'' @ [CHR 0xED] @ ''vel problema ou aus'' @ [CHR 0xEA]
                        @ ''ncia'')] else [])
                 @ (if length str > 500 then [utf16 (''Resultado rico em informa'' @ [CHR 0xE7, CHR 0xF5]
                     @ ''es'')] else [])
             | Structured _ _ \<Rightarrow> [])
      in if length found > 0 then found else [utf16 (''Resultado processado sem insights espec'' @ [CHR 0xED]
          @ ''ficos'')])"

definition shouldTransitionPhase :: "Phase \<Rightarrow> ExplorationSummary \<Rightarrow> bool" where
  "shouldTransitionPhase ph summary =
     (case ph of
        EXPLORE \<Rightarrow> totalEntries summary \<ge> 5 \<and> confidenceScore summary > 0.7
      | THINK \<Rightarrow> confidenceScore summary > 0.85
      | EXECUTE \<Rightarrow> False)"

definition suggestNextActions :: "Phase \<Rightarrow> jsstring list \<Rightarrow> ExplorationSummary \<Rightarrow> bool \<Rightarrow> jsstring list" where
  "suggestNextActions ph ins summary transition =
     (if transition then
        (case ph of
           EXPLORE \<Rightarrow> [utf16 ''Transitar para THINK - analisar dados coletados'',
                       utf16 (''Usar exploration_summary() para s'' @ [CHR 0xED] @ ''ntese'')]
         | THINK \<Rightarrow> [utf16 (''Transitar para EXECUTE - implementar solu'' @ [CHR 0xE7, CHR 0xE3]
             @ ''o''),
                     utf16 (''Criar plano de a'' @ [CHR 0xE7, CHR 0xE3] @ ''o baseado em evid'' @ [CHR 0xEA]
                         @ ''ncias'')]
         | EXECUTE \<Rightarrow> [])
      else
        (case ph of
           EXPLORE \<Rightarrow>
             (if filesExplored summary = 0 then [utf16 (''Explorar arquivos de configura''
                 @ [CHR 0xE7, CHR 0xE3] @ ''o principais'')] else [])
             @ (if searchQueries summary = 0 then [utf16 ''Realizar buscas por funcionalidades chave''] else [])
         | THINK \<Rightarrow> [utf16 (''Continuar an'' @ [CHR 0xE1] @ ''lise - executar tough_reasoning()'')]
         | EXECUTE \<Rightarrow> [utf16 (''Implementar mudan'' @ [CHR 0xE7] @ ''as planejadas'')]))"

text \<open>\<^verbatim>\<open>truncateResult\<close> of the thinking engine: at most 100 code units, then an ellipsis.\<close>

definition truncateResult :: "ToolResponse \<Rightarrow> jsstring" where
  "truncateResult res =
     (let str = (case res of Text s \<Rightarrow> s | Structured _ js \<Rightarrow> js)
      in if length str > 100 then take 100 str @ utf16 ''...'' else str)"

text \<open>
  \<^verbatim>\<open>thinkBeforeAction\<close>. On a cache hit the entry is looked up again; were it missing,
  \<^verbatim>\<open>truncateResult(undefined)\<close> would raise a TypeError, which is the \<open>Inl\<close> branch.
\<close>

definition thinkBeforeAction ::
  "ClineDefaultTool \<Rightarrow> jsstring \<Rightarrow> ToolParams \<Rightarrow> World \<Rightarrow> error + (BeforeAction \<times> World)" where
  "thinkBeforeAction T tool params w =
     (let ph = getCurrentPhase (pad w);
          summary = generateSummary T (pad w);
          q = extractQueryFromTool T tool params;
          hasCached = hasExplored (pad w) tool q (p_path params)
      in if hasCached then
           (case getCachedResult (pad w) tool q (p_path params) of
              None \<Rightarrow> Inl TypeError
            | Some cachedResult \<Rightarrow>
                (let w' = addThinkingStep ph (utf16 ''cache_check'')
                            [S (utf16 (''J'' @ [CHR 0xE1] @ '' executei '')), S tool,
                             S (utf16 ('' com par'' @ [CHR 0xE2]
                                 @ ''metros similares. Usarei resultado cacheado para efici'' @ [CHR 0xEA]
                                     @ ''ncia.''))]
                            0.9
                            [[S (utf16 ''Resultado anterior: ''), S (truncateResult (result cachedResult))],
                             [S (utf16 (''Confian'' @ [CHR 0xE7]
                                 @ ''a do cache: '')), R (or_number (confidence cachedResult) 0 * 100), S (utf16 ''%'')]]
                            [] w
                 in Inr (\<lparr>shouldProceed = False,
                           before_reasoning = utf16 (''Resultado cacheado dispon'' @ [CHR 0xED] @ ''vel''),
                           before_confidence = or_number (confidence cachedResult) 0.8\<rparr>, w')))
         else
           (let toolRelevance = evaluateToolRelevance T tool ph summary;
                sufficientEvidence = hasSufficientEvidenceForAction T tool summary;
                rsn = buildActionReasoning tool params toolRelevance sufficientEvidence ph;
                conf = calculateActionConfidence toolRelevance sufficientEvidence (confidenceScore summary);
                w' = addThinkingStep ph (utf16 ''tool_evaluation'') [S rsn] conf
                       [[S (utf16 ''Ferramenta: ''), S tool],
                        [S (utf16 (''Relev'' @ [CHR 0xE2] @ ''ncia: '')),
                         S (if toolRelevance > 0.7 then utf16 ''Alta'' else if toolRelevance > 0.5 then utf16 (''M''
                             @ [CHR 0xE9] @ ''dia'') else utf16 ''Baixa'')],
                        [S (utf16 (''Evid'' @ [CHR 0xEA]
                            @ ''ncias suficientes: '')), S (if sufficientEvidence then utf16 ''Sim'' else utf16 (''N''
                                @ [CHR 0xE3] @ ''o''))],
                        [S (utf16 ''Fase atual: ''), S (Phase_name ph)]]
                       [] w
            in Inr (\<lparr>shouldProceed = (conf > 0.6), before_reasoning = rsn, before_confidence = conf\<rparr>, w')))"

text \<open>
  \<^verbatim>\<open>analyzeResult\<close>: phase and summary are read before the new entry is stored.
\<close>

definition analyzeResult ::
  "ClineDefaultTool \<Rightarrow> jsstring \<Rightarrow> ToolParams \<Rightarrow> ToolResponse \<Rightarrow> World \<Rightarrow> ResultAnalysis \<times> World" where
  "analyzeResult T tool params res w =
     (let ph = getCurrentPhase (pad w);
          summary = generateSummary T (pad w);
          w1 = addEntry \<lparr>toolName = tool,
                          query = extractQueryFromTool T tool params,
                          result = res,
                          confidence = calculateResultConfidence res,
                          tags = generateResultTags T tool params,
                          filePath = p_path params,
                          timestamp = 0,
                          relevance = 1.0,
                          toolParams = params\<rparr> w;
          ins = extractInsightsFromResult tool res params;
          transition = shouldTransitionPhase ph summary;
          nxt = suggestNextActions ph ins summary transition;
          rsn = [S (utf16 ''Analisei resultado de ''), S tool, S (utf16 ''. ''), N (int (length ins)),
                 S (utf16 ('' insights extra'' @ [CHR 0xED] @ ''dos. '')),
                 S (if transition then utf16 ''Pronto para transitar de fase.'' else utf16 ''Continuando na fase atual.'')];
          w2 = addThinkingStep ph (utf16 ''result_analysis'') rsn (confidenceScore summary) (map (\<lambda>i. [S i]) ins) nxt w1
      in (\<lparr>insights = ins, shouldTransition = transition, analysis_nextActions = nxt\<rparr>, w2))"

definition buildDecisionContext :: "ClineDefaultTool \<Rightarrow> World \<Rightarrow> DecisionContext \<times> World" where
  "buildDecisionContext T w =
     (let (t, e') = Date_now (env w)
      in (\<lparr>task = currentTask (thinkingEngine w),
            context_currentPhase = getCurrentPhase (pad w),
            availableEvidence = entries (pad w),
            context_confidence = confidenceScore (generateSummary T (pad w)),
            timeSpent = t - startTime (thinkingEngine w),
            previousDecisions = thinkingSteps (thinkingEngine w)\<rparr>, w\<lparr>env := e'\<rparr>))"

text \<open>
  \<^verbatim>\<open>generateFinalDecision\<close> returns decision, confidence and action plan; the record's
  reasoning is filled in by \<^verbatim>\<open>makeFinalDecision\<close>.
\<close>

definition generateFinalDecision :: "ClineDefaultTool \<Rightarrow> DecisionContext \<Rightarrow> World \<Rightarrow> jsstring \<times> real \<times> jsstring list" where
  "generateFinalDecision T ctx w =
     (let summary = generateSummary T (pad w);
          (decision', actionPlan') =
             (if confidenceScore summary > 0.9 then
                (utf16 (''Solu'' @ [CHR 0xE7, CHR 0xE3] @ ''o clara identificada com alta confian'' @ [CHR 0xE7]
                    @ ''a''),
                 [utf16 (''Executar mudan'' @ [CHR 0xE7] @ ''as necess'' @ [CHR 0xE1]
                     @ ''rias''), utf16 (''Validar implementa'' @ [CHR 0xE7, CHR 0xE3]
                         @ ''o''), utf16 ''Testar funcionalidade''])
              else if confidenceScore summary > 0.7 then
                (utf16 (''Solu'' @ [CHR 0xE7, CHR 0xE3] @ ''o identificada com confian'' @ [CHR 0xE7]
                    @ ''a moderada''),
                 [utf16 (''Implementar solu'' @ [CHR 0xE7, CHR 0xE3]
                     @ ''o proposta''), utf16 ''Verificar se resolve o problema'',
                  utf16 (''Preparar ajustes se necess'' @ [CHR 0xE1] @ ''rio'')])
              else
                (utf16 (''Mais an'' @ [CHR 0xE1] @ ''lise necess'' @ [CHR 0xE1] @ ''ria antes de decis''
                    @ [CHR 0xE3] @ ''o final''),
                 [utf16 (''Continuar explora'' @ [CHR 0xE7, CHR 0xE3] @ ''o''), utf16 (''Coletar mais evid''
                     @ [CHR 0xEA] @ ''ncias''), utf16 ''Reavaliar abordagem'']))
      in (decision', confidenceScore summary, actionPlan'))"

definition makeFinalDecision :: "ClineDefaultTool \<Rightarrow> World \<Rightarrow> FinalDecision \<times> World" where
  "makeFinalDecision T w =
     (let summary = generateSummary T (pad w);
          w1 = (if confidenceScore summary < 0.8 then
                  (let (toughResult, w') = toughReasoning T 5 0.85 w
                   in addThinkingStep THINK (utf16 ''tough_reasoning'')
                        (S (utf16 (''Executei racioc'' @ [CHR 0xED] @ ''nio profundo: '')) # conclusion toughResult)
                        (tough_confidence toughResult)
                        [[S (utf16 (''Itera'' @ [CHR 0xE7, CHR 0xF5] @ ''es: '')), N (int (iterations toughResult))],
                         [S (utf16 (''Passos de racioc'' @ [CHR 0xED]
                             @ ''nio: '')), N (int (length (reasoningSteps toughResult)))]]
                        [] w')
                else w);
          (decisionContext, w2) = buildDecisionContext T w1;
          (decision', confidence', actionPlan') = generateFinalDecision T decisionContext w2;
          rsn = [S (utf16 ''Com base em ''), N (int (totalEntries summary)),
                 S (utf16 ('' pontos de evid'' @ [CHR 0xEA] @ ''ncia e confian'' @ [CHR 0xE7]
                     @ ''a de '')), Fixed 1 (confidenceScore summary * 100),
                 S (utf16 ''%, decidi: ''), S decision'];
          w3 = addThinkingStep EXECUTE (utf16 ''final_decision'') rsn confidence'
                 [[S (utf16 (''Evid'' @ [CHR 0xEA] @ ''ncias totais: '')), N (int (totalEntries summary))],
                  [S (utf16 ''Arquivos explorados: ''), N (int (filesExplored summary))],
                  [S (utf16 ''Descobertas chave: ''), N (int (length (keyFindings summary)))]]
                 actionPlan' w2
      in (\<lparr>decision = decision', decision_confidence = confidence', actionPlan = actionPlan',
            decision_reasoning = rsn\<rparr>, w3))"

section \<open>IntelligentThinkingSystem\<close>

definition new_IntelligentThinkingSystem :: IntelligentThinkingSystem where
  "new_IntelligentThinkingSystem =
     \<lparr>thoughtChain = [],
      conversationContext =
        \<lparr>taskDescription = [], currentIteration = 0, totalIterations = 0, context_thoughtChain = [],
         accumulatedKnowledge = Map.empty, currentFocus = utf16 ''task_understanding'',
         lastActionResult = None, convergenceLevel = 0\<rparr>,
      isThinkingActive = False,
      convergenceThreshold = 0.85\<rparr>"

text \<open>
  The wiring of the example program: a scratchpad, an engine on it and a system on both,
  constructed in this order.
\<close>

definition new_World :: "Env \<Rightarrow> World" where
  "new_World e =
     (let (s, e1) = new_ExplorationScratchpad e;
          (g, e2) = new_ThinkingEngine e1
      in \<lparr>pad = s, env = e2, thinkingEngine = g, intelligentThinkingSystem = new_IntelligentThinkingSystem\<rparr>)"

definition updateFocusBasedOnThought :: "IntelligentThought \<Rightarrow> ConversationContext \<Rightarrow> ConversationContext" where
  "updateFocusBasedOnThought th ctx =
     (case thought_phase th of
        T_EXPLORE \<Rightarrow> ctx\<lparr>currentFocus := utf16 ''data_collection''\<rparr>
      | T_THINK \<Rightarrow> ctx\<lparr>currentFocus := utf16 ''analysis''\<rparr>
      | T_EXECUTE \<Rightarrow> ctx\<lparr>currentFocus := utf16 ''decision_making''\<rparr>
      | T_REFLECT \<Rightarrow> ctx\<lparr>currentFocus := utf16 ''learning''\<rparr>)"

text \<open>
  The argument of \<^verbatim>\<open>addThought\<close> has no id and no timestamp; \<open>thoughtData\<close> builds it
  with placeholders, which \<^verbatim>\<open>addThought\<close> replaces: the id from a clock reading and a
  random suffix, the timestamp from a second clock reading.
\<close>

definition thoughtData ::
  "ThoughtPhase \<Rightarrow> message \<Rightarrow> real \<Rightarrow> message list \<Rightarrow> bool \<Rightarrow> ActionType option \<Rightarrow> ActionParams option
     \<Rightarrow> message option \<Rightarrow> IntelligentThought" where
  "thoughtData ph txt conf ev trig atype aparams rfl =
     \<lparr>thought_id = [], thought_timestamp = 0, thought_phase = ph, thought = txt,
      thought_confidence = conf, thought_evidence = ev, triggersAction = trig,
      actionType = atype, actionParams = aparams, reflection = rfl\<rparr>"

definition addThought :: "IntelligentThought \<Rightarrow> World \<Rightarrow> World" where
  "addThought td w =
     (let (t0, e0) = Date_now (env w);
          (r, e1) = Math_random_suffix e0;
          (t1, e2) = Date_now e1;
          th = td\<lparr>thought_id := [S (utf16 ''thought_''), N t0, S (utf16 ''_''), S r], thought_timestamp := t1\<rparr>;
          sys = intelligentThinkingSystem w;
          ctx = conversationContext sys;
          ctx' = updateFocusBasedOnThought th (ctx\<lparr>context_thoughtChain := context_thoughtChain ctx @ [th]\<rparr>)
      in w\<lparr>env := e2,
            intelligentThinkingSystem := sys\<lparr>thoughtChain := thoughtChain sys @ [th], conversationContext := ctx'\<rparr>\<rparr>)"

definition initializeIntelligentThinking :: "ClineDefaultTool \<Rightarrow> jsstring \<Rightarrow> World \<Rightarrow> World" where
  "initializeIntelligentThinking T description w =
     (let sys = intelligentThinkingSystem w;
          ctx = conversationContext sys;
          w0 = w\<lparr>intelligentThinkingSystem :=
                   sys\<lparr>conversationContext := ctx\<lparr>taskDescription := description, currentIteration := 0\<rparr>,
                       isThinkingActive := True\<rparr>\<rparr>;
          w1 = addThought (thoughtData T_THINK
                 [S (utf16 (''Nova tarefa recebida: '' @ [CHR 0x22])), S description,
                  S (utf16 ([CHR 0x22] @ ''. Preciso entender profundamente o que est'' @ [CHR 0xE1]
                      @ '' sendo pedido.''))]
                 0.5 [] False None None None) w0;
          currentKnowledge = generateSummary T (pad w1)
      in addThought (thoughtData T_THINK
           [S (utf16 ''Avaliando meu conhecimento atual: ''), N (int (totalEntries currentKnowledge)),
            S (utf16 ('' pontos de dados coletados, confian'' @ [CHR 0xE7] @ ''a de '')),
            Fixed 1 (confidenceScore currentKnowledge * 100), S (utf16 ''%.'')]
           (confidenceScore currentKnowledge)
           (map (\<lambda>k. [S k]) (keyFindings currentKnowledge))
           True (Some analysis) (Some (AP_type (utf16 ''knowledge_assessment''))) None) w1)"

definition analyzeCurrentSituation :: "ClineDefaultTool \<Rightarrow> World \<Rightarrow> Analysis \<times> World" where
  "analyzeCurrentSituation T w =
     (let summary = generateSummary T (pad w);
          ph = getCurrentPhase (pad w);
          iteration = currentIteration (conversationContext (intelligentThinkingSystem w));
          analysisThought =
            [S (utf16 (''An'' @ [CHR 0xE1] @ ''lise da itera'' @ [CHR 0xE7, CHR 0xE3]
                @ ''o '')), N (int iteration), S (utf16 '': ''), N (int (totalEntries summary)),
             S (utf16 ('' dados coletados, confian'' @ [CHR 0xE7] @ ''a '')), Fixed 1 (confidenceScore summary * 100),
             S (utf16 ''%, fase ''), S (Phase_name ph), S (utf16 ''.'')]
      in if totalEntries summary < 3 \<and> ph = EXPLORE then
           (let strategy = [utf16 ''auto_explore'', utf16 ''read_key_files'', utf16 ''search_patterns''];
                w' = addThought (thoughtData T_THINK
                       (analysisThought @ [S (utf16 '' Ainda preciso explorar mais para entender o contexto.'')])
                       (confidenceScore summary)
                       [[S (utf16 ''Poucos dados: ''), N (int (totalEntries summary)), S (utf16 '' entradas'')]]
                       True (Some analysis) (Some (AP_strategy strategy)) None) w
            in (\<lparr>needsMoreExploration = True, needsDeepReasoning = False, canMakeDecision = False,
                  explorationStrategy = strategy, reasoningFocus = []\<rparr>, w'))
         else if confidenceScore summary < 0.7 \<and> ph = THINK then
           (let w' = addThought (thoughtData T_THINK
                       (analysisThought @ [S (utf16 ('' Confian'' @ [CHR 0xE7]
                           @ ''a ainda baixa, preciso raciocinar mais profundamente.''))])
                       (confidenceScore summary)
                       [[S (utf16 (''Confian'' @ [CHR 0xE7]
                           @ ''a baixa: '')), Fixed 1 (confidenceScore summary * 100), S (utf16 ''%'')]]
                       True (Some analysis) (Some (AP_focus (utf16 ''evidence_evaluation''))) None) w
            in (\<lparr>needsMoreExploration = False, needsDeepReasoning = True, canMakeDecision = False,
                  explorationStrategy = [], reasoningFocus = utf16 ''evidence_evaluation''\<rparr>, w'))
         else if confidenceScore summary \<ge> 0.8 \<or> iteration \<ge> 5 then
           (let w' = addThought (thoughtData T_THINK
                       (analysisThought @ [S (utf16 ('' Tenho informa'' @ [CHR 0xE7, CHR 0xF5]
                           @ ''es suficientes para tomar uma decis'' @ [CHR 0xE3] @ ''o.''))])
                       (confidenceScore summary)
                       [[S (utf16 (''Confian'' @ [CHR 0xE7]
                           @ ''a adequada: '')), Fixed 1 (confidenceScore summary * 100), S (utf16 ''%'')],
                        [S (utf16 (''Itera'' @ [CHR 0xE7, CHR 0xE3] @ ''o '')), N (int iteration)]]
                       False None None None) w
            in (\<lparr>needsMoreExploration = False, needsDeepReasoning = False, canMakeDecision = True,
                  explorationStrategy = [], reasoningFocus = []\<rparr>, w'))
         else
           (let strategy = [utf16 ''targeted_search'', utf16 ''deep_file_analysis''];
                w' = addThought (thoughtData T_THINK
                       (analysisThought @ [S (utf16 '' Vou explorar de forma mais direcionada.'')])
                       (confidenceScore summary)
                       [[S (utf16 (''Estrat'' @ [CHR 0xE9] @ ''gia direcionada necess'' @ [CHR 0xE1] @ ''ria''))]]
                       True (Some analysis) (Some (AP_strategy strategy)) None) w
            in (\<lparr>needsMoreExploration = True, needsDeepReasoning = False, canMakeDecision = False,
                  explorationStrategy = strategy, reasoningFocus = []\<rparr>, w')))"

text \<open>The \<^verbatim>\<open>for ... of\<close> loop of \<^verbatim>\<open>performIntelligentExploration\<close>.\<close>

fun exploration_thoughts :: "jsstring list \<Rightarrow> World \<Rightarrow> World" where
  "exploration_thoughts [] w = w"
| "exploration_thoughts (explorationType # rest) w =
     exploration_thoughts rest
       (addThought (thoughtData T_EXPLORE
          [S (utf16 (''Executando explora'' @ [CHR 0xE7, CHR 0xE3] @ ''o do tipo: '')), S explorationType]
          0.8 [[S (utf16 (''Tipo de explora'' @ [CHR 0xE7, CHR 0xE3]
              @ ''o: '')), S explorationType]] False None None None) w)"

definition performIntelligentExploration :: "jsstring list \<Rightarrow> World \<Rightarrow> World" where
  "performIntelligentExploration strategy w =
     (let w1 = addThought (thoughtData T_EXPLORE
                 [S (utf16 (''Iniciando explora'' @ [CHR 0xE7, CHR 0xE3] @ ''o inteligente com estrat''
                     @ [CHR 0xE9] @ ''gia: '')), S (join (utf16 '', '') strategy)]
                 0.7 [[S (utf16 (''Estrat'' @ [CHR 0xE9] @ ''gia baseada na an'' @ [CHR 0xE1] @ ''lise atual''))]]
                 True (Some tool_use) (Some (AP_explorationStrategy strategy)) None) w;
          w2 = exploration_thoughts strategy w1
      in addThought (thoughtData T_REFLECT
           [S (utf16 (''Explora'' @ [CHR 0xE7, CHR 0xE3] @ ''o conclu'' @ [CHR 0xED]
               @ ''da. Agora vou analisar os novos dados coletados.''))]
           0.75 [[S (utf16 (''Dados de explora'' @ [CHR 0xE7, CHR 0xE3]
               @ ''o processados''))]] False None None None) w2)"

definition performDeepReasoning :: "ClineDefaultTool \<Rightarrow> World \<Rightarrow> World" where
  "performDeepReasoning T w =
     (let w1 = addThought (thoughtData T_THINK
                 [S (utf16 (''Iniciando racioc'' @ [CHR 0xED] @ ''nio profundo para analisar evid'' @ [CHR 0xEA]
                     @ ''ncias e identificar padr'' @ [CHR 0xF5] @ ''es.''))]
                 0.6
                 [[S (utf16 (''Dados dispon'' @ [CHR 0xED]
                     @ ''veis: '')), N (int (totalEntries (generateSummary T (pad w)))), S (utf16 '' entradas'')]]
                 True (Some analysis) (Some (AP_type (utf16 ''deep_reasoning''))) None) w;
          (reasoningResult, w2) = toughReasoning T 3 0.8 w1
      in addThought (thoughtData T_THINK
           (S (utf16 (''Racioc'' @ [CHR 0xED] @ ''nio profundo conclu'' @ [CHR 0xED]
               @ ''do: '')) # conclusion reasoningResult)
           (tough_confidence reasoningResult)
           (reasoningSteps reasoningResult)
           False None None
           (Some [S (utf16 (''Confian'' @ [CHR 0xE7]
               @ ''a aumentou para '')), Fixed 1 (tough_confidence reasoningResult * 100),
                  S (utf16 (''% ap'' @ [CHR 0xF3] @ ''s an'' @ [CHR 0xE1] @ ''lise profunda.''))])) w2)"

definition makeIntelligentDecision :: "ClineDefaultTool \<Rightarrow> World \<Rightarrow> ThinkingLoopResult \<times> World" where
  "makeIntelligentDecision T w =
     (let n = length (thoughtChain (intelligentThinkingSystem w));
          w1 = addThought (thoughtData T_EXECUTE
                 [S (utf16 (''Tomando decis'' @ [CHR 0xE3]
                     @ ''o final baseada em '')), N (int n), S (utf16 '' pensamentos e ''),
                  N (int (totalEntries (generateSummary T (pad w)))), S (utf16 '' dados.'')]
                 (confidenceScore (generateSummary T (pad w)))
                 [[S (utf16 ''Pensamentos analisados: ''), N (int n)]]
                 False None None None) w;
          (final, w2) = makeFinalDecision T w1;
          w3 = addThought (thoughtData T_EXECUTE
                 [S (utf16 (''Decis'' @ [CHR 0xE3] @ ''o tomada: '')), S (decision final)]
                 (decision_confidence final)
                 [[S (utf16 (''Decis'' @ [CHR 0xE3] @ ''o final baseada em evid'' @ [CHR 0xEA] @ ''ncias''))]]
                 False None None
                 (Some [S (utf16 (''Processo de pensamento inteligente conclu'' @ [CHR 0xED] @ ''do ap''
                     @ [CHR 0xF3] @ ''s '')),
                        N (int (currentIteration (conversationContext (intelligentThinkingSystem w2)))),
                        S (utf16 ('' itera'' @ [CHR 0xE7, CHR 0xF5] @ ''es.''))])) w2
      in (\<lparr>finalDecision = decision final, loop_confidence = decision_confidence final,
            thoughtProcess = thoughtChain (intelligentThinkingSystem w3)\<rparr>, w3))"

definition analyzeActionResult :: "ToolResponse \<Rightarrow> jsstring \<times> real \<times> jsstring list \<times> bool \<times> jsstring" where
  "analyzeActionResult res =
     (let resultStr = (case res of Text s \<Rightarrow> s | Structured _ js \<Rightarrow> js)
      in if str_includes resultStr (utf16 ''error'') \<or> str_includes resultStr (utf16 ''not found'') then
           (utf16 (''Resultado indica problema ou aus'' @ [CHR 0xEA] @ ''ncia''), 0.4, [utf16 (''Resultado cont''
               @ [CHR 0xE9] @ ''m erros'')], True,
            utf16 ''Preciso investigar mais ou ajustar abordagem'')
         else if length resultStr > 200 then
           (utf16 (''Resultado rico em informa'' @ [CHR 0xE7, CHR 0xF5]
               @ ''es''), 0.9, [utf16 ''Resultado extenso e informativo''], False,
            utf16 ''Dados suficientes coletados, posso prosseguir'')
         else
           (utf16 (''Resultado b'' @ [CHR 0xE1] @ ''sico obtido''), 0.6, [utf16 (''Resultado padr'' @ [CHR 0xE3]
               @ ''o'')], True,
            utf16 (''Posso precisar de mais informa'' @ [CHR 0xE7, CHR 0xF5] @ ''es espec'' @ [CHR 0xED]
                @ ''ficas'')))"

text \<open>
  A pending result counts when it is truthy: present and not the empty string.
\<close>

definition truthy_response :: "ToolResponse option \<Rightarrow> bool" where
  "truthy_response r = (case r of None \<Rightarrow> False | Some (Text s) \<Rightarrow> s \<noteq> [] | Some (Structured _ _) \<Rightarrow> True)"

definition reflectOnActionResult :: "World \<Rightarrow> World" where
  "reflectOnActionResult w =
     (case lastActionResult (conversationContext (intelligentThinkingSystem w)) of
        None \<Rightarrow> w
      | Some lastResult \<Rightarrow>
          if \<not> truthy_response (Some lastResult) then w
          else
            (let (summary, conf, ev, suggestsNextAction, ins) = analyzeActionResult lastResult;
                 w1 = addThought (thoughtData T_REFLECT
                        [S (utf16 (''Refletindo sobre resultado da a'' @ [CHR 0xE7, CHR 0xE3] @ ''o: '')), S summary]
                        conf (map (\<lambda>x. [S x]) ev) suggestsNextAction
                        (Some analysis) (Some (AP_reflection_type (utf16 ''action_result''))) (Some [S ins])) w;
                 sys = intelligentThinkingSystem w1
             in w1\<lparr>intelligentThinkingSystem :=
                      sys\<lparr>conversationContext := (conversationContext sys)\<lparr>lastActionResult := None\<rparr>\<rparr>\<rparr>))"

definition calculateThoughtConsistency :: "IntelligentThinkingSystem \<Rightarrow> real" where
  "calculateThoughtConsistency sys =
     (if length (thoughtChain sys) < 2 then 0.5
      else
        (let confidences = map thought_confidence (thoughtChain sys);
             avgConfidence = foldl (\<lambda>a b. a + b) 0 confidences / real (length confidences);
             variance = foldl (\<lambda>sum conf. sum + (conf - avgConfidence) ^ 2) 0 confidences
                          / real (length confidences)
         in max 0 (1 - sqrt variance)))"

definition updateConvergenceLevel :: "ClineDefaultTool \<Rightarrow> World \<Rightarrow> World" where
  "updateConvergenceLevel T w =
     (let summary = generateSummary T (pad w);
          sys = intelligentThinkingSystem w;
          iters = currentIteration (conversationContext sys);
          thoughtConsistency = calculateThoughtConsistency sys;
          dataConfidence = confidenceScore summary;
          iterationBonus = min 0.3 (real iters * 0.05);
          consistencyBonus = thoughtConsistency * 0.2
      in w\<lparr>intelligentThinkingSystem :=
             sys\<lparr>conversationContext :=
                   (conversationContext sys)\<lparr>convergenceLevel :=
                      min 1 (dataConfidence + iterationBonus + consistencyBonus)\<rparr>\<rparr>\<rparr>)"

definition registerActionResult :: "ToolResponse \<Rightarrow> World \<Rightarrow> World" where
  "registerActionResult res w =
     (let sys = intelligentThinkingSystem w
      in w\<lparr>intelligentThinkingSystem :=
             sys\<lparr>conversationContext := (conversationContext sys)\<lparr>lastActionResult := Some res\<rparr>\<rparr>\<rparr>)"

definition stop_thinking :: "World \<Rightarrow> World" where
  "stop_thinking w = w\<lparr>intelligentThinkingSystem := (intelligentThinkingSystem w)\<lparr>isThinkingActive := False\<rparr>\<rparr>"

definition next_iteration :: "World \<Rightarrow> World" where
  "next_iteration w =
     (let sys = intelligentThinkingSystem w; ctx = conversationContext sys
      in w\<lparr>intelligentThinkingSystem :=
             sys\<lparr>conversationContext := ctx\<lparr>currentIteration := Suc (currentIteration ctx)\<rparr>\<rparr>\<rparr>)"

definition iteration_of :: "World \<Rightarrow> nat" where
  "iteration_of w = currentIteration (conversationContext (intelligentThinkingSystem w))"

subsection \<open>What the steps of the loop leave unchanged\<close>

text \<open>
  \<open>only_env w w'\<close>: the world \<open>w'\<close> differs from \<open>w\<close> at most in the environment
  (clock readings taken, random suffixes taken).
\<close>

definition only_env :: "World \<Rightarrow> World \<Rightarrow> bool" where
  "only_env w w' = (pad w' = pad w \<and> thinkingEngine w' = thinkingEngine w
     \<and> intelligentThinkingSystem w' = intelligentThinkingSystem w)"

lemma only_env_refl [simp]: "only_env w w"
  by (simp add: only_env_def)

lemma only_env_trans: "only_env w w' \<Longrightarrow> only_env w' w'' \<Longrightarrow> only_env w w''"
  by (simp add: only_env_def)

lemma only_env_getExplorationDuration [simp]: "only_env w (snd (getExplorationDuration w))"
  by (simp add: getExplorationDuration_def split_beta only_env_def)

lemma only_env_performDeepAnalysis [simp]: "only_env w (snd (performDeepAnalysis s w))"
  by (simp add: performDeepAnalysis_def split_beta Let_def)

lemma only_env_calculateSophisticatedConfidence [simp]:
  "only_env w (snd (calculateSophisticatedConfidence s i w))"
  by (simp add: calculateSophisticatedConfidence_def split_beta Let_def)

lemma only_env_toughReasoning_body: "only_env w (snd (snd (snd (toughReasoning_body T i st w))))"
  by (auto simp add: toughReasoning_body_def split_beta Let_def
        intro: only_env_trans[OF only_env_performDeepAnalysis only_env_calculateSophisticatedConfidence])

lemma only_env_toughReasoning_for:
  "only_env w (snd (toughReasoning_for T m c i cc co st w))"
proof (induction T m c i cc co st w rule: toughReasoning_for.induct)
  case (1 T m c i cc co st w)
  obtain summary steps2 conf w2 where b: "toughReasoning_body T i st w = (summary, steps2, conf, w2)"
    by (cases "toughReasoning_body T i st w") auto
  have w2: "only_env w w2"
    using only_env_toughReasoning_body[of w T i st] by (simp add: b)
  show ?case
  proof (cases "i \<le> m \<and> \<not> c \<le> conf")
    case True
    then have "only_env w2 (snd (toughReasoning_for T m c (i + 1) conf co steps2 w2))"
      using "1.IH"[OF _ b[symmetric]] by simp
    with w2 True show ?thesis
      by (subst toughReasoning_for.simps) (auto simp add: b intro: only_env_trans)
  next
    case False
    with w2 show ?thesis
      by (subst toughReasoning_for.simps) (auto simp add: b)
  qed
qed

lemma only_env_toughReasoning: "only_env w (snd (toughReasoning T m c w))"
  by (simp add: toughReasoning_def only_env_toughReasoning_for)

lemma iteration_of_only_env: "only_env w w' \<Longrightarrow> iteration_of w' = iteration_of w"
  by (simp add: only_env_def iteration_of_def)

lemma iteration_of_addThought [simp]: "iteration_of (addThought td w) = iteration_of w"
  by (simp add: iteration_of_def addThought_def Let_def split_beta updateFocusBasedOnThought_def
        split: ThoughtPhase.splits)

lemma iteration_of_analyzeCurrentSituation [simp]:
  "iteration_of (snd (analyzeCurrentSituation T w)) = iteration_of w"
  by (simp add: analyzeCurrentSituation_def Let_def)

lemma iteration_of_exploration_thoughts [simp]: "iteration_of (exploration_thoughts st w) = iteration_of w"
  by (induction st arbitrary: w) simp_all

lemma iteration_of_performIntelligentExploration [simp]:
  "iteration_of (performIntelligentExploration st w) = iteration_of w"
  by (simp add: performIntelligentExploration_def Let_def)

lemma iteration_of_next_iteration [simp]: "iteration_of (next_iteration w) = Suc (iteration_of w)"
  by (simp add: iteration_of_def next_iteration_def Let_def)

lemma iteration_of_toughReasoning [simp]: "iteration_of (snd (toughReasoning T m c w)) = iteration_of w"
  by (simp add: iteration_of_only_env[OF only_env_toughReasoning])

lemma iteration_of_performDeepReasoning [simp]: "iteration_of (performDeepReasoning T w) = iteration_of w"
  by (simp add: performDeepReasoning_def Let_def split_beta)

lemma iteration_of_reflectOnActionResult [simp]: "iteration_of (reflectOnActionResult w) = iteration_of w"
proof -
  have "\<And>w'. iteration_of (w'\<lparr>intelligentThinkingSystem :=
           (intelligentThinkingSystem w')\<lparr>conversationContext :=
              (conversationContext (intelligentThinkingSystem w'))\<lparr>lastActionResult := None\<rparr>\<rparr>\<rparr>)
         = iteration_of w'"
    by (simp add: iteration_of_def)
  then show ?thesis
    by (simp add: reflectOnActionResult_def Let_def split_beta split: option.splits)
qed

lemma iteration_of_updateConvergenceLevel [simp]: "iteration_of (updateConvergenceLevel T w) = iteration_of w"
  by (simp add: updateConvergenceLevel_def Let_def iteration_of_def)

subsection \<open>The thinking loop\<close>

text \<open>
  The \<^verbatim>\<open>while\<close> loop of \<^verbatim>\<open>executeThinkingLoop\<close>. A \<^verbatim>\<open>continue\<close> is the recursive call;
  the exploration strategy is an array and so always truthy. No operation of the model
  raises an exception inside the loop, so the \<^verbatim>\<open>catch\<close> branch is never entered and is
  left out, and the pause at the end of the body changes nothing but the time.
\<close>

function executeThinkingLoop_while :: "ClineDefaultTool \<Rightarrow> nat \<Rightarrow> World \<Rightarrow> ThinkingLoopResult \<times> World" where
  "executeThinkingLoop_while T maxIterations w =
     (if iteration_of w < maxIterations \<and> isThinkingActive (intelligentThinkingSystem w) then
        (let (currentAnalysis, w1) = analyzeCurrentSituation T (next_iteration w)
         in if needsMoreExploration currentAnalysis then
              executeThinkingLoop_while T maxIterations
                (performIntelligentExploration (explorationStrategy currentAnalysis) w1)
            else if needsDeepReasoning currentAnalysis then
              executeThinkingLoop_while T maxIterations (performDeepReasoning T w1)
            else if canMakeDecision currentAnalysis then
              (let (d, w2) = makeIntelligentDecision T w1 in (d, stop_thinking w2))
            else
              (let w2 = (if truthy_response (lastActionResult (conversationContext (intelligentThinkingSystem w1)))
                         then reflectOnActionResult w1 else w1);
                   w3 = updateConvergenceLevel T w2
               in if convergenceLevel (conversationContext (intelligentThinkingSystem w3))
                       \<ge> convergenceThreshold (intelligentThinkingSystem w3)
                  then (let (d, w4) = makeIntelligentDecision T w3 in (d, stop_thinking w4))
                  else executeThinkingLoop_while T maxIterations w3))
      else (let (d, w') = makeIntelligentDecision T w in (d, stop_thinking w')))"
  by pat_completeness auto
termination
proof (relation "measure (\<lambda>(T, maxIterations, w). maxIterations - iteration_of w)")
  show "wf (measure (\<lambda>(T, maxIterations, w). maxIterations - iteration_of w))"
    by simp
next
  fix T maxIterations w x currentAnalysis w1
  assume a: "iteration_of w < maxIterations \<and> isThinkingActive (intelligentThinkingSystem w)"
     and x: "x = analyzeCurrentSituation T (next_iteration w)" "(currentAnalysis, w1) = x"
  have w1: "iteration_of w1 = Suc (iteration_of w)"
    using iteration_of_analyzeCurrentSituation[of T "next_iteration w"] x
    by (metis iteration_of_next_iteration snd_conv)
  { show "((T, maxIterations, performIntelligentExploration (explorationStrategy currentAnalysis) w1),
           T, maxIterations, w) \<in> measure (\<lambda>(T, maxIterations, w). maxIterations - iteration_of w)"
      using a w1 by (auto simp: diff_less_mono2) }
  { show "((T, maxIterations, performDeepReasoning T w1), T, maxIterations, w)
           \<in> measure (\<lambda>(T, maxIterations, w). maxIterations - iteration_of w)"
      using a w1 by (auto simp: diff_less_mono2) }
  { fix w2 w3
    assume "w2 = (if truthy_response (lastActionResult (conversationContext (intelligentThinkingSystem w1)))
                  then reflectOnActionResult w1 else w1)"
           "w3 = updateConvergenceLevel T w2"
    then show "((T, maxIterations, w3), T, maxIterations, w)
           \<in> measure (\<lambda>(T, maxIterations, w). maxIterations - iteration_of w)"
      using a w1 by (auto simp: diff_less_mono2) }
qed

declare executeThinkingLoop_while.simps [simp del]

definition set_totalIterations :: "nat \<Rightarrow> World \<Rightarrow> World" where
  "set_totalIterations maxIterations w =
     (let sys = intelligentThinkingSystem w
      in w\<lparr>intelligentThinkingSystem :=
             sys\<lparr>conversationContext := (conversationContext sys)\<lparr>totalIterations := maxIterations\<rparr>\<rparr>\<rparr>)"

definition executeThinkingLoop :: "ClineDefaultTool \<Rightarrow> nat \<Rightarrow> World \<Rightarrow> ThinkingLoopResult \<times> World" where
  "executeThinkingLoop T maxIterations w =
     executeThinkingLoop_while T maxIterations (set_totalIterations maxIterations w)"

section \<open>ReasoningToolHandler\<close>

text \<open>
  \<^verbatim>\<open>truncateResult\<close> of the reasoning tool handler, which \<^verbatim>\<open>checkCacheStatus\<close> uses:
  its bound is 500 code units.
\<close>

definition handler_truncateResult :: "ToolResponse \<Rightarrow> jsstring" where
  "handler_truncateResult res =
     (let str = (case res of Text s \<Rightarrow> s | Structured _ js \<Rightarrow> js)
      in if length str > 500 then take 500 str @ utf16 ''...'' else str)"

definition checkCacheStatus :: "jsstring \<Rightarrow> jsstring \<Rightarrow> jsstring option \<Rightarrow> World \<Rightarrow> message" where
  "checkCacheStatus tool q fp w =
     (let explored = hasExplored (pad w) tool q fp;
          cachedResult = getCachedResult (pad w) tool q fp;
          output0 = [S (utf16 ''## Cache Status Check''), S (utf16 [CHR 0x0A, CHR 0x0A]),
                     S (utf16 ''**Tool:** ''), S tool, S (utf16 [CHR 0x0A]),
                     S (utf16 ''**Query:** ''), S q, S (utf16 [CHR 0x0A])];
          output1 = (if or_string fp [] \<noteq> []
                     then output0 @ [S (utf16 ''**File Path:** ''), S (or_string fp []), S (utf16 [CHR 0x0A])]
                     else output0);
          output2 = output1 @ [S (utf16 ''**Cache Hit:** '')] @
                      (if explored then [U 0x2705, S (utf16 '' Yes'')] else [U 0x274C, S (utf16 '' No'')])
                      @ [S (utf16 [CHR 0x0A, CHR 0x0A])]
      in case cachedResult of
           Some c \<Rightarrow>
             output2 @
               [S (utf16 ''### Cached Result:''), S (utf16 [CHR 0x0A]),
                S (utf16 ''- Confidence: ''), Fixed 1 (confidence c * 100), S (utf16 ''%''), S (utf16 [CHR 0x0A]),
                S (utf16 ''- Timestamp: ''), LocaleString (timestamp c), S (utf16 [CHR 0x0A]),
                S (utf16 ''- Tags: ''), S (join (utf16 '', '') (tags c)), S (utf16 [CHR 0x0A]),
                S (utf16 ''- Relevance: ''), Fixed 1 (relevance c * 100), S (utf16 ''%''), S (utf16 [CHR 0x0A, CHR 0x0A]),
                S (utf16 ''**Result:** ''), S (handler_truncateResult (result c))]
         | None \<Rightarrow> output2 @ [S (utf16 ''No cached result available.'')])"

section \<open>Definitions for the properties\<close>

text \<open>
  Concrete values on which the theorems below are instantiated: the tool names of the
  example program, a clock that advances by 100 ms per reading, and an entry.
\<close>

definition example_tools :: ClineDefaultTool where
  "example_tools =
     \<lparr>SEARCH = utf16 ''search_files'', FILE_READ = utf16 ''read_file'', LIST_FILES = utf16 ''list_files'',
      FILE_EDIT = utf16 ''replace_in_file'', FILE_NEW = utf16 ''write_to_file'', REASONING = utf16 ''reasoning_functions''\<rparr>"

definition example_env :: Env where
  "example_env = \<lparr>now_readings = (\<lambda>k. 1000 + 100 * int k), now_count = 0,
                   random_readings = (\<lambda>k. (utf16 ''k3x9q2m1z'')), random_count = 0\<rparr>"

definition example_entry :: "jsstring \<Rightarrow> jsstring \<Rightarrow> jsstring option \<Rightarrow> real \<Rightarrow> ExplorationEntry" where
  "example_entry tool q fp conf =
     \<lparr>toolName = tool, query = q, result = Text (utf16 ''Found 5 matches in 3 files''), confidence = conf,
      tags = [utf16 ''search''], filePath = fp, timestamp = 0, relevance = 1,
      toolParams = \<lparr>p_regex = Some q, p_query = None, p_path = fp, p_stringified = utf16 ''{}''\<rparr>\<rparr>"

text \<open>A sequence of \<^verbatim>\<open>addEntry\<close> calls, first entry first.\<close>

fun addEntries :: "ExplorationEntry list \<Rightarrow> World \<Rightarrow> World" where
  "addEntries [] w = w"
| "addEntries (e # es) w = addEntries es (addEntry e w)"

text \<open>Strings whose code units are all below 256, and optional ones.\<close>

definition latin1 :: "jsstring \<Rightarrow> bool" where
  "latin1 s = list_all (\<lambda>c. c < 256) s"

definition latin1_opt :: "jsstring option \<Rightarrow> bool" where
  "latin1_opt fp = (case fp of None \<Rightarrow> True | Some p \<Rightarrow> latin1 p)"

text \<open>
  Two code units below 256 that are the same letter, in the same case or not: the capital
  letters are 65 to 90 and 192 to 222 without 215, each 32 below its small letter. Two
  strings differ only in letter case when they have the same length and the same letter
  at every place.
\<close>

definition capital :: "nat \<Rightarrow> bool" where
  "capital c = ((65 \<le> c \<and> c \<le> 90) \<or> (192 \<le> c \<and> c \<le> 222 \<and> c \<noteq> 215))"

definition same_letter :: "nat \<Rightarrow> nat \<Rightarrow> bool" where
  "same_letter x y = (x = y \<or> (capital x \<and> y = x + 32) \<or> (capital y \<and> x = y + 32))"

definition same_up_to_case :: "jsstring \<Rightarrow> jsstring \<Rightarrow> bool" where
  "same_up_to_case a b = list_all2 same_letter a b"

text \<open>
  A new scratchpad after three entries with the confidences 0.1, 0.2 and 0.3, each as the
  machine stores it.
\<close>

definition rounding_world :: World where
  "rounding_world =
     addEntries [example_entry (utf16 ''read_file'') (utf16 ''a.ts'') None (binary64 (1 / 10)),
                 example_entry (utf16 ''read_file'') (utf16 ''b.ts'') None (binary64 (1 / 5)),
                 example_entry (utf16 ''read_file'') (utf16 ''c.ts'') None (binary64 (3 / 10))]
       (new_World example_env)"

text \<open>The order EXPLORE < THINK < EXECUTE of the phases.\<close>

definition Phase_rank :: "Phase \<Rightarrow> nat" where
  "Phase_rank ph = (case ph of EXPLORE \<Rightarrow> 0 | THINK \<Rightarrow> 1 | EXECUTE \<Rightarrow> 2)"

text \<open>
  The confidence formula of the specification: the store's mean confidence weighted by the
  exploration depth, plus the iteration bonus and the time bonus, capped at 1.
  \<open>elapsed_at w k\<close> is the elapsed time that the reading \<open>k\<close> places after the current
  one will show.
\<close>

definition confidence_formula :: "ExplorationSummary \<Rightarrow> nat \<Rightarrow> int \<Rightarrow> real" where
  "confidence_formula summary i elapsedMs =
     min 1 (confidenceScore summary * min 1 (real (totalEntries summary) / 10)
            + min 0.2 (real i * 0.05) + min 0.1 (real_of_int elapsedMs / 60000))"

definition elapsed_at :: "World \<Rightarrow> nat \<Rightarrow> int" where
  "elapsed_at w k = now_readings (env w) (now_count (env w) + k) - explorationStartTime (pad w)"

text \<open>An example scratchpad whose only entry has confidence 0.95.\<close>

definition confident_world :: World where
  "confident_world = addEntry (example_entry (utf16 ''read_file'') (utf16 ''a.ts'') None 0.95) (new_World example_env)"

text \<open>
  \<open>control w\<close> collects what steers the loop: the scratchpad, the iteration counter, the
  activity flag, the convergence threshold and level and the pending action result.
  \<open>phases w\<close> is the sequence of phases of the thoughts recorded so far.
\<close>

definition control :: "World \<Rightarrow> ExplorationScratchpad \<times> nat \<times> bool \<times> real \<times> real \<times> ToolResponse option" where
  "control w =
     (let sys = intelligentThinkingSystem w; ctx = conversationContext sys
      in (pad w, currentIteration ctx, isThinkingActive sys, convergenceThreshold sys,
          convergenceLevel ctx, lastActionResult ctx))"

definition phases :: "World \<Rightarrow> ThoughtPhase list" where
  "phases w = map thought_phase (thoughtChain (intelligentThinkingSystem w))"

text \<open>What the caller of \<^verbatim>\<open>thinkBeforeAction\<close> acts on: whether to proceed, and the confidence.\<close>

definition outcome :: "error + (BeforeAction \<times> World) \<Rightarrow> error + (bool \<times> real)" where
  "outcome x = map_sum id (\<lambda>(r, w'). (shouldProceed r, before_confidence r)) x"

text \<open>The text that \<^verbatim>\<open>truncateResult\<close> shortens.\<close>

definition payload_text :: "ToolResponse \<Rightarrow> jsstring" where
  "payload_text res = (case res of Text s \<Rightarrow> s | Structured _ js \<Rightarrow> js)"

text \<open>An example scratchpad with a cached file of 200 letters.\<close>

definition long_payload_world :: World where
  "long_payload_world =
     addEntry ((example_entry (utf16 ''read_file'') (utf16 ''big.txt'') None 0.9)\<lparr>result := Text (utf16 (replicate 200 (CHR ''a'')))\<rparr>)
       (new_World example_env)"

text \<open>
  The classification of the specification, first match first: (i) fewer than 3 entries in
  phase EXPLORE: exploration, broad strategy; (ii) confidence score below 0.7 in phase
  THINK: deep reasoning; (iii) confidence score at least 0.8, or iteration at least 5:
  decide; (iv) otherwise exploration, targeted strategy.
\<close>

datatype Branch = Needs_exploration "jsstring list" | Needs_deep_reasoning | Can_decide

definition classify :: "nat \<Rightarrow> real \<Rightarrow> Phase \<Rightarrow> nat \<Rightarrow> Branch" where
  "classify n score ph iteration =
     (if n < 3 \<and> ph = EXPLORE then Needs_exploration [utf16 ''auto_explore'', utf16 ''read_key_files'', utf16 ''search_patterns'']
      else if score < 0.7 \<and> ph = THINK then Needs_deep_reasoning
      else if score \<ge> 0.8 \<or> iteration \<ge> 5 then Can_decide
      else Needs_exploration [utf16 ''targeted_search'', utf16 ''deep_file_analysis''])"

definition analysis_of :: "Branch \<Rightarrow> Analysis" where
  "analysis_of b =
     (case b of
        Needs_exploration strategy \<Rightarrow>
          \<lparr>needsMoreExploration = True, needsDeepReasoning = False, canMakeDecision = False,
           explorationStrategy = strategy, reasoningFocus = []\<rparr>
      | Needs_deep_reasoning \<Rightarrow>
          \<lparr>needsMoreExploration = False, needsDeepReasoning = True, canMakeDecision = False,
           explorationStrategy = [], reasoningFocus = utf16 ''evidence_evaluation''\<rparr>
      | Can_decide \<Rightarrow>
          \<lparr>needsMoreExploration = False, needsDeepReasoning = False, canMakeDecision = True,
           explorationStrategy = [], reasoningFocus = []\<rparr>)"

text \<open>
  \<open>settled w\<close>: the parts of the state that no step of the loop writes, as the lemmas
  below show: scratchpad, convergence threshold and level, pending action result.
\<close>

definition settled :: "World \<Rightarrow> ExplorationScratchpad \<times> real \<times> real \<times> ToolResponse option" where
  "settled w =
     (let sys = intelligentThinkingSystem w; ctx = conversationContext sys
      in (pad w, convergenceThreshold sys, convergenceLevel ctx, lastActionResult ctx))"

text \<open>
  The example program's set-up: a new world, entries of the given confidences added, then
  \<^verbatim>\<open>initializeIntelligentThinking\<close>.
\<close>

definition explored_world :: "real list \<Rightarrow> World" where
  "explored_world confidences =
     initializeIntelligentThinking example_tools (utf16 ''Add email validation'')
       (addEntries (map (example_entry (utf16 ''read_file'') (utf16 ''validation.js'') None) confidences) (new_World example_env))"

definition decided_world :: World where
  "decided_world = explored_world [0.9, 0.9, 0.9]"

definition sparse_world :: World where
  "sparse_world = explored_world [0.9]"

definition undecided_world :: World where
  "undecided_world = explored_world [0.5, 0.5, 0.5, 0.5, 0.5]"

text \<open>
  The convergence formula of the specification: the store's confidence score, plus the
  iteration bonus, plus a fifth of the consistency of the thoughts, capped at 1. The
  consistency is 1 minus the standard deviation of the thought confidences, not below 0,
  and 0.5 when there are fewer than two thoughts.
\<close>

definition thought_consistency :: "real list \<Rightarrow> real" where
  "thought_consistency cs =
     (if length cs < 2 then 0.5
      else (let mean = sum_list cs / real (length cs);
                variance = sum_list (map (\<lambda>c. (c - mean) ^ 2) cs) / real (length cs)
            in max 0 (1 - sqrt variance)))"

definition convergence_formula :: "real \<Rightarrow> nat \<Rightarrow> real list \<Rightarrow> real" where
  "convergence_formula storeConfidence iteration cs =
     min 1 (storeConfidence + min 0.3 (real iteration * 0.05) + 0.2 * thought_consistency cs)"

definition convergence_of :: "World \<Rightarrow> real" where
  "convergence_of w = convergenceLevel (conversationContext (intelligentThinkingSystem w))"

definition thought_confidences :: "World \<Rightarrow> real list" where
  "thought_confidences w = map thought_confidence (thoughtChain (intelligentThinkingSystem w))"

section \<open>Strings\<close>

lemma utf16_eq_iff [simp]: "utf16 a = utf16 b \<longleftrightarrow> a = b"
  by (simp add: utf16_def inj_map_eq_map inj_on_def)

lemma utf16_Nil [simp]: "utf16 [] = []"
  by (simp add: utf16_def)

lemma utf16_eq_Nil [simp]: "utf16 a = [] \<longleftrightarrow> a = []" "[] = utf16 a \<longleftrightarrow> a = []"
  by (auto simp: utf16_def)

lemma utf16_append [simp]: "utf16 a @ utf16 b = utf16 (a @ b)" "utf16 a @ utf16 b @ x = utf16 (a @ b) @ x"
  by (simp_all add: utf16_def)

lemma length_utf16 [simp]: "length (utf16 a) = length a"
  by (simp add: utf16_def)

lemma take_utf16 [simp]: "take n (utf16 a) = utf16 (take n a)"
  by (simp add: utf16_def take_map)

lemma prefix_utf16 [simp]: "prefix (utf16 a) (utf16 b) \<longleftrightarrow> prefix a b"
  by (auto simp: utf16_def prefix_def map_eq_append_conv inj_map_eq_map inj_on_def)

lemma str_includes_utf16 [simp]: "str_includes (utf16 a) (utf16 b) \<longleftrightarrow> str_includes a b"
proof (induction a)
  case Nil
  then show ?case by simp
next
  case (Cons c a)
  have "utf16 (c # a) = of_char c # utf16 a"
    by (simp add: utf16_def)
  moreover have "prefix (utf16 b) (utf16 (c # a)) \<longleftrightarrow> prefix b (c # a)"
    by simp
  ultimately show ?case
    using Cons.IH by simp
qed

section \<open>The summary\<close>

lemma sum_list_insort_key: "sum_list (map f (insort_key k x xs)) = (f x :: real) + sum_list (map f xs)"
  by (induction xs) auto

lemma sum_list_sort_key: "sum_list (map f (sort_key k xs)) = (sum_list (map f xs) :: real)"
  by (induction xs) (auto simp: sum_list_insort_key)

lemma foldl_confidence:
  "foldl (\<lambda>sum entry. sum + confidence entry) a xs = a + sum_list (map confidence xs)"
  by (induction xs arbitrary: a) auto

lemma confidenceScore_generateSummary:
  "confidenceScore (generateSummary T s) =
     (if entries s = [] then 0 else sum_list (map confidence (entries s)) / real (length (entries s)))"
  by (simp add: generateSummary_def Let_def foldl_confidence)

lemma totalEntries_generateSummary [simp]: "totalEntries (generateSummary T s) = length (entries s)"
  by (simp add: generateSummary_def Let_def)

lemma sum_confidence_addEntry:
  "sum_list (map confidence (entries (pad (addEntry e w))))
     = sum_list (map confidence (entries (pad w))) + confidence e"
  by (simp add: addEntry_def Let_def Date_now_def sum_list_sort_key)

lemma length_entries_addEntry: "length (entries (pad (addEntry e w))) = Suc (length (entries (pad w)))"
  by (simp add: addEntry_def Let_def Date_now_def)

lemma sum_confidence_addEntries:
  "sum_list (map confidence (entries (pad (addEntries es w))))
     = sum_list (map confidence (entries (pad w))) + sum_list (map confidence es)"
  by (induction es arbitrary: w) (simp_all add: sum_confidence_addEntry)

lemma length_entries_addEntries:
  "length (entries (pad (addEntries es w))) = length (entries (pad w)) + length es"
  by (induction es arbitrary: w) (simp_all add: length_entries_addEntry)

lemma generateSummary_fl_exact: "generateSummary_fl (\<lambda>x. x) T s = generateSummary T s"
  by (simp add: generateSummary_fl_def generateSummary_def)

lemma confidenceScore_generateSummary_fl:
  "confidenceScore (generateSummary_fl fl T s) =
     (if entries s = [] then 0
      else fl (foldl (\<lambda>a c. fl (a + c)) 0 (map confidence (entries s)) / real (length (entries s))))"
  by (simp add: generateSummary_fl_def Let_def foldl_map)

lemma confidences_addEntry:
  "confidence ` set (entries (pad (addEntry e w))) = insert (confidence e) (confidence ` set (entries (pad w)))"
  by (simp add: addEntry_def Let_def split_beta)

lemma confidences_addEntries:
  "confidence ` set (entries (pad (addEntries es w))) = confidence ` set es \<union> confidence ` set (entries (pad w))"
  by (induction es arbitrary: w) (auto simp: confidences_addEntry)

subsection \<open>The error of one rounding\<close>

lemma round_ties_to_even_error: "\<bar>of_int (round_ties_to_even q) - q\<bar> \<le> 1 / 2"
proof -
  have "of_int \<lfloor>q\<rfloor> \<le> q" "q < of_int \<lfloor>q\<rfloor> + 1"
    by linarith+
  then show ?thesis
    by (auto simp: round_ties_to_even_def Let_def)
qed

lemma binary64_zero [simp]: "binary64 0 = 0"
  by (simp add: binary64_def)

lemma unit_roundoff_pos: "0 < unit_roundoff"
  by (simp only: unit_roundoff_def powr_gt_zero)

lemma smallest_normal_pos: "0 < smallest_normal"
  by (simp only: smallest_normal_def powr_gt_zero)

text \<open>
  A rounded result is off by at most half a unit in the last place: the fraction
  \<open>2\<^sup>-\<^sup>5\<^sup>3\<close> of the exact result when that has 53 significant bits, and
  \<open>2\<^sup>-\<^sup>1\<^sup>0\<^sup>7\<^sup>5\<close> below.
\<close>

lemma binary64_error: "\<bar>binary64 x - x\<bar> \<le> unit_roundoff * (\<bar>x\<bar> + smallest_normal)"
proof (cases "x = 0")
  case True
  then show ?thesis
    using unit_roundoff_pos smallest_normal_pos by simp
next
  case False
  define L where "L = \<lfloor>log 2 \<bar>x\<bar>\<rfloor>"
  define e where "e = max (L - 52) (- 1074)"
  define p :: real where "p = 2 powr of_int e"
  have p: "0 < p" by (simp add: p_def)
  have b: "binary64 x = of_int (round_ties_to_even (x / p)) * p"
    using False by (simp add: binary64_def Let_def L_def e_def p_def)
  have "binary64 x - x = (of_int (round_ties_to_even (x / p)) - x / p) * p"
    using p by (simp add: b left_diff_distrib)
  then have "\<bar>binary64 x - x\<bar> = \<bar>of_int (round_ties_to_even (x / p)) - x / p\<bar> * p"
    using p by (simp add: abs_mult)
  also have "\<dots> \<le> 1 / 2 * p"
    using round_ties_to_even_error[of "x / p"] p by (intro mult_right_mono) simp_all
  finally have h: "\<bar>binary64 x - x\<bar> \<le> p / 2" by simp
  have half: "p / 2 = 2 powr (of_int e - 1)"
    by (simp add: p_def powr_diff)
  have xl: "2 powr of_int L \<le> \<bar>x\<bar>"
  proof -
    have "of_int L \<le> log 2 \<bar>x\<bar>" by (simp add: L_def)
    then have "2 powr of_int L \<le> 2 powr log 2 \<bar>x\<bar>" by simp
    then show ?thesis using False by simp
  qed
  have "p / 2 \<le> unit_roundoff * (\<bar>x\<bar> + smallest_normal)"
  proof (cases "- 1074 \<le> L - 52")
    case True
    then have "real_of_int e - 1 = - 53 + of_int L" by (simp add: e_def)
    then have "p / 2 = unit_roundoff * 2 powr of_int L"
      by (simp only: half powr_add unit_roundoff_def)
    also have "\<dots> \<le> unit_roundoff * \<bar>x\<bar>"
      using xl unit_roundoff_pos by simp
    also have "\<dots> \<le> unit_roundoff * (\<bar>x\<bar> + smallest_normal)"
      using unit_roundoff_pos smallest_normal_pos by simp
    finally show ?thesis .
  next
    case False
    then have "real_of_int e - 1 = - 53 + - 1022" by (simp add: e_def)
    then have "p / 2 = unit_roundoff * smallest_normal"
      by (simp only: half powr_add unit_roundoff_def smallest_normal_def)
    also have "\<dots> \<le> unit_roundoff * (\<bar>x\<bar> + smallest_normal)"
      using unit_roundoff_pos by simp
    finally show ?thesis .
  qed
  with h show ?thesis by linarith
qed

subsection \<open>The error of a rounded mean\<close>

lemma power_ge_one: "0 \<le> u \<Longrightarrow> (1::real) \<le> (1 + u) ^ k"
  by (rule one_le_power) simp

text \<open>
  One more rounding: when \<open>y\<close> is within \<open>((1 + u)\<^sup>k - 1) (A + m)\<close> of \<open>A\<close> and \<open>z\<close> is
  \<open>y\<close> rounded, \<open>z\<close> is within \<open>((1 + u)\<^sup>k\<^sup>+\<^sup>1 - 1) (A + m)\<close> of \<open>A\<close>.
\<close>

lemma rounded_step:
  fixes u m A y z :: real
  assumes fl: "\<bar>z - y\<bar> \<le> u * (\<bar>y\<bar> + m)"
      and u: "0 \<le> u" and A: "0 \<le> A" and m: "0 \<le> m"
      and y: "\<bar>y - A\<bar> \<le> ((1 + u) ^ k - 1) * (A + m)"
  shows "\<bar>z - A\<bar> \<le> ((1 + u) ^ Suc k - 1) * (A + m)"
proof -
  define E where "E = ((1 + u) ^ k - 1) * (A + m)"
  have yE: "\<bar>y - A\<bar> \<le> E"
    using y by (simp add: E_def)
  then have "\<bar>y\<bar> \<le> A + E"
    using A by linarith
  then have "u * (\<bar>y\<bar> + m) \<le> u * (A + E + m)"
    using u by (intro mult_left_mono) simp_all
  then have "\<bar>z - y\<bar> \<le> u * (A + E + m)"
    using fl by linarith
  then have "\<bar>z - A\<bar> \<le> u * (A + E + m) + E"
    using yE by linarith
  also have "u * (A + E + m) + E = ((1 + u) ^ Suc k - 1) * (A + m)"
    by (simp add: E_def algebra_simps)
  finally show ?thesis .
qed

lemma foldl_rounded_error:
  fixes u m :: real
  assumes fl: "\<And>x. \<bar>fl x - x\<bar> \<le> u * (\<bar>x\<bar> + m)"
      and u: "0 \<le> u" and m: "0 \<le> m"
  shows "\<forall>c\<in>set xs. 0 \<le> c \<Longrightarrow> 0 \<le> A \<Longrightarrow> \<bar>a - A\<bar> \<le> ((1 + u) ^ k - 1) * (A + m)
     \<Longrightarrow> \<bar>foldl (\<lambda>s c. fl (s + c)) a xs - (A + sum_list xs)\<bar>
           \<le> ((1 + u) ^ (k + length xs) - 1) * (A + sum_list xs + m)"
proof (induction xs arbitrary: a A k)
  case Nil
  then show ?case by simp
next
  case (Cons c cs)
  have c: "0 \<le> c" using Cons.prems(1) by simp
  have w: "((1 + u) ^ k - 1) * (A + m) \<le> ((1 + u) ^ k - 1) * (A + c + m)"
    using power_ge_one[OF u, of k] c by (intro mult_left_mono) simp_all
  have y: "\<bar>(a + c) - (A + c)\<bar> \<le> ((1 + u) ^ k - 1) * (A + c + m)"
    using Cons.prems(3) w by simp
  have "\<bar>fl (a + c) - (A + c)\<bar> \<le> ((1 + u) ^ Suc k - 1) * (A + c + m)"
    using rounded_step[OF fl u _ m y] Cons.prems(2) c by simp
  from Cons.IH[OF _ _ this] Cons.prems(1,2) c show ?case
    by (simp add: add.assoc)
qed

lemma rounded_mean_error:
  fixes u m :: real
  assumes fl: "\<And>x. \<bar>fl x - x\<bar> \<le> u * (\<bar>x\<bar> + m)"
      and u: "0 \<le> u" and m: "0 \<le> m"
      and xs: "\<forall>c\<in>set xs. 0 \<le> c" and ne: "xs \<noteq> []"
  shows "\<bar>fl (foldl (\<lambda>s c. fl (s + c)) 0 xs / real (length xs)) - sum_list xs / real (length xs)\<bar>
           \<le> ((1 + u) ^ Suc (length xs) - 1) * (sum_list xs / real (length xs) + m)"
proof -
  define n where "n = length xs"
  define S where "S = sum_list xs"
  define s where "s = foldl (\<lambda>s c. fl (s + c)) 0 xs"
  have n: "1 \<le> real n" using ne by (cases xs) (simp_all add: n_def)
  have S: "0 \<le> S" using xs by (simp add: S_def sum_list_nonneg)
  have e: "\<bar>s - S\<bar> \<le> ((1 + u) ^ n - 1) * (S + m)"
    using foldl_rounded_error[OF fl u m xs, of 0 0 0] m by (simp add: s_def S_def n_def)
  have g: "0 \<le> (1 + u) ^ n - 1" using power_ge_one[OF u, of n] by simp
  have "\<bar>s / real n - S / real n\<bar> = \<bar>s - S\<bar> / real n"
    using n by (simp add: diff_divide_distrib[symmetric])
  also have "\<dots> \<le> ((1 + u) ^ n - 1) * (S + m) / real n"
    using e n by (simp add: divide_right_mono)
  also have "\<dots> = ((1 + u) ^ n - 1) * (S / real n + m / real n)"
    using n by (simp add: field_simps)
  also have "\<dots> \<le> ((1 + u) ^ n - 1) * (S / real n + m)"
  proof -
    have "m / real n \<le> m / 1" using n m by (intro divide_left_mono) simp_all
    then have "m / real n \<le> m" by simp
    then show ?thesis using g by (intro mult_left_mono) simp_all
  qed
  finally have y: "\<bar>s / real n - S / real n\<bar> \<le> ((1 + u) ^ n - 1) * (S / real n + m)" .
  have "0 \<le> S / real n" using S n by simp
  from rounded_step[OF fl u this m y] show ?thesis
    by (simp add: s_def S_def n_def)
qed

subsection \<open>Rounding by hand\<close>

lemma binary64_eval:
  assumes "2 powr of_int L \<le> \<bar>x\<bar>" and "\<bar>x\<bar> < 2 powr of_int (L + 1)"
  shows "binary64 x = of_int (round_ties_to_even (x / 2 powr of_int (max (L - 52) (- 1074))))
                        * 2 powr of_int (max (L - 52) (- 1074))"
proof -
  have x: "0 < \<bar>x\<bar>"
    using assms(1) powr_gt_zero[of 2 "of_int L"] by linarith
  have "\<lfloor>log 2 \<bar>x\<bar>\<rfloor> = L"
    using assms x by (subst floor_log_eq_powr_iff) simp_all
  then show ?thesis
    using x by (simp add: binary64_def Let_def)
qed

lemma binary64_evalI:
  assumes "2 powr of_int L \<le> \<bar>x\<bar>" and "\<bar>x\<bar> < 2 powr of_int (L + 1)"
      and "e = max (L - 52) (- 1074)"
      and "round_ties_to_even (x / 2 powr of_int e) = r"
      and "y = of_int r * 2 powr of_int e"
  shows "binary64 x = y"
  using binary64_eval[OF assms(1,2)] assms(3-5) by simp

lemma two_powr_neg_numeral: "(2::real) powr (- numeral k) = 1 / 2 ^ numeral k"
  by (simp add: powr_minus_divide)

lemmas binary64_simps = two_powr_neg_numeral round_ties_to_even_def Let_def

text \<open>The doubles nearest to 0.1, 0.2 and 0.3.\<close>

lemma binary64_tenth: "binary64 (1 / 10) = 3602879701896397 / 2 ^ 55"
  by (rule binary64_evalI[where L = "- 4" and e = "- 56" and r = 7205759403792794])
     (simp_all add: binary64_simps)

lemma binary64_fifth: "binary64 (1 / 5) = 3602879701896397 / 2 ^ 54"
  by (rule binary64_evalI[where L = "- 3" and e = "- 55" and r = 7205759403792794])
     (simp_all add: binary64_simps)

lemma binary64_three_tenths: "binary64 (3 / 10) = 5404319552844595 / 2 ^ 54"
  by (rule binary64_evalI[where L = "- 2" and e = "- 54" and r = 5404319552844595])
     (simp_all add: binary64_simps)

text \<open>
  Their sum from the last to the first, as \<^verbatim>\<open>reduce\<close> runs over the log of
  \<open>rounding_world\<close>, and the division by 3: 0.3 + 0.2 is 0.5 exactly, 0.5 + 0.1 rounds
  down, and the quotient rounds down to the double printed as 0.19999999999999998.
\<close>

lemma sum_step_1: "binary64 (0 + 5404319552844595 / 2 ^ 54) = 5404319552844595 / 2 ^ 54"
  by (rule binary64_evalI[where L = "- 2" and e = "- 54" and r = 5404319552844595])
     (simp_all add: binary64_simps)

lemma sum_step_2: "binary64 (5404319552844595 / 2 ^ 54 + 3602879701896397 / 2 ^ 54) = 1 / 2"
  by (rule binary64_evalI[where L = "- 1" and e = "- 53" and r = 4503599627370496])
     (simp_all add: binary64_simps)

lemma sum_step_3: "binary64 (1 / 2 + 3602879701896397 / 2 ^ 55) = 5404319552844595 / 2 ^ 53"
  by (rule binary64_evalI[where L = "- 1" and e = "- 53" and r = 5404319552844595])
     (simp_all add: binary64_simps)

lemma quotient_step: "binary64 (5404319552844595 / 2 ^ 53 / 3) = 7205759403792793 / 2 ^ 55"
  by (rule binary64_evalI[where L = "- 3" and e = "- 55" and r = 7205759403792793])
     (simp_all add: binary64_simps)

lemma entries_rounding_world:
  "map confidence (entries (pad rounding_world)) = [binary64 (3 / 10), binary64 (1 / 5), binary64 (1 / 10)]"
  by (simp add: rounding_world_def addEntry_def Let_def split_beta Date_now_def example_entry_def
        new_World_def new_ExplorationScratchpad_def new_ThinkingEngine_def example_env_def)

lemma score_rounding_world:
  "confidenceScore (generateSummary_fl binary64 example_tools (pad rounding_world)) = 7205759403792793 / 2 ^ 55"
proof -
  have a1: "binary64 (0 + binary64 (3 / 10)) = 5404319552844595 / 2 ^ 54"
    unfolding binary64_three_tenths by (rule sum_step_1)
  have a2: "binary64 (5404319552844595 / 2 ^ 54 + binary64 (1 / 5)) = 1 / 2"
    unfolding binary64_fifth by (rule sum_step_2)
  have a3: "binary64 (1 / 2 + binary64 (1 / 10)) = 5404319552844595 / 2 ^ 53"
    unfolding binary64_tenth by (rule sum_step_3)
  have ne: "entries (pad rounding_world) \<noteq> []"
    using entries_rounding_world by auto
  have len: "real (length (entries (pad rounding_world))) = 3"
    using arg_cong[OF entries_rounding_world, of length] by simp
  show ?thesis
    by (simp only: confidenceScore_generateSummary_fl ne if_False entries_rounding_world len
          foldl_Cons foldl_Nil a1 a2 a3 quotient_step)
qed

subsection \<open>The confidence score and the mean\<close>

text \<open>
  C3, as stated: the confidence score is the arithmetic mean of the stored confidences and
  is 0 exactly when the log is empty. The second half fails: one stored entry of
  confidence 0 gives the score 0 on a log that is not empty, in exact arithmetic and in
  the machine's.
\<close>

theorem confidenceScore_zero_nonempty_log:
  "confidenceScore (generateSummary example_tools
      (pad (addEntry (example_entry (utf16 ''search_files'') (utf16 ''auth'') None 0) (new_World example_env)))) = 0
   \<and> confidenceScore (generateSummary_fl binary64 example_tools
      (pad (addEntry (example_entry (utf16 ''search_files'') (utf16 ''auth'') None 0) (new_World example_env)))) = 0
   \<and> entries (pad (addEntry (example_entry (utf16 ''search_files'') (utf16 ''auth'') None 0)
        (new_World example_env))) \<noteq> []"
  by (simp add: confidenceScore_generateSummary confidenceScore_generateSummary_fl addEntry_def Let_def
        split_beta Date_now_def example_entry_def new_World_def new_ExplorationScratchpad_def
        new_ThinkingEngine_def)

text \<open>
  C3, amended: after any sequence of \<^verbatim>\<open>addEntry\<close> calls on an empty log, with confidences
  between 0 and 1, the confidence score that \<^verbatim>\<open>generateSummary\<close> computes in double
  precision is 0 when no entry was added; otherwise it differs from the arithmetic mean
  \<open>m\<close> of the \<open>n\<close> confidences added by at most \<open>((1 + 2\<^sup>-\<^sup>5\<^sup>3)\<^sup>n\<^sup>+\<^sup>1 - 1) (m + 2\<^sup>-\<^sup>1\<^sup>0\<^sup>2\<^sup>2)\<close>, in
  whatever order the log holds the entries. On an empty log the summary has no entries,
  score 0 and no key findings.
\<close>

theorem generateSummary_confidenceScore_rounded_mean:
  "((\<forall>e\<in>set es. 0 \<le> confidence e \<and> confidence e \<le> 1) \<longrightarrow>
      (es = [] \<longrightarrow>
         confidenceScore (generateSummary_fl binary64 T
            (pad (addEntries es (w\<lparr>pad := (pad w)\<lparr>entries := []\<rparr>\<rparr>)))) = 0)
      \<and> (es \<noteq> [] \<longrightarrow>
         \<bar>confidenceScore (generateSummary_fl binary64 T
            (pad (addEntries es (w\<lparr>pad := (pad w)\<lparr>entries := []\<rparr>\<rparr>))))
          - sum_list (map confidence es) / real (length es)\<bar>
         \<le> ((1 + unit_roundoff) ^ Suc (length es) - 1)
            * (sum_list (map confidence es) / real (length es) + smallest_normal)))
   \<and> generateSummary_fl binary64 T (s\<lparr>entries := []\<rparr>) =
       \<lparr>totalEntries = 0, filesExplored = 0, searchQueries = 0, listOperations = 0,
        keyFindings = [], confidenceScore = 0\<rparr>"
proof (intro conjI impI)
  let ?w0 = "w\<lparr>pad := (pad w)\<lparr>entries := []\<rparr>\<rparr>"
  let ?cs = "map confidence (entries (pad (addEntries es ?w0)))"
  have len: "length (entries (pad (addEntries es ?w0))) = length es"
    by (simp add: length_entries_addEntries)
  have sum: "sum_list ?cs = sum_list (map confidence es)"
    by (simp add: sum_confidence_addEntries)
  {
    assume "es = []"
    then show "confidenceScore (generateSummary_fl binary64 T (pad (addEntries es ?w0))) = 0"
      by (simp add: confidenceScore_generateSummary_fl)
  }
  {
    assume h: "\<forall>e\<in>set es. 0 \<le> confidence e \<and> confidence e \<le> 1" and ne: "es \<noteq> []"
    have "set ?cs = confidence ` set es"
      using confidences_addEntries[of es ?w0] by simp
    then have pos: "\<forall>c\<in>set ?cs. 0 \<le> c"
      using h by auto
    have ne': "?cs \<noteq> []"
      using ne len by (metis length_0_conv length_map)
    have "entries (pad (addEntries es ?w0)) \<noteq> []"
      using ne' by simp
    then have sc: "confidenceScore (generateSummary_fl binary64 T (pad (addEntries es ?w0)))
        = binary64 (foldl (\<lambda>a c. binary64 (a + c)) 0 ?cs / real (length ?cs))"
      by (simp add: confidenceScore_generateSummary_fl)
    have "\<bar>binary64 (foldl (\<lambda>a c. binary64 (a + c)) 0 ?cs / real (length ?cs)) - sum_list ?cs / real (length ?cs)\<bar>
        \<le> ((1 + unit_roundoff) ^ Suc (length ?cs) - 1) * (sum_list ?cs / real (length ?cs) + smallest_normal)"
      using unit_roundoff_pos smallest_normal_pos
      by (intro rounded_mean_error binary64_error pos ne') simp_all
    then show "\<bar>confidenceScore (generateSummary_fl binary64 T (pad (addEntries es ?w0)))
          - sum_list (map confidence es) / real (length es)\<bar>
         \<le> ((1 + unit_roundoff) ^ Suc (length es) - 1)
            * (sum_list (map confidence es) / real (length es) + smallest_normal)"
      by (simp only: sc sum len length_map)
  }
  show "generateSummary_fl binary64 T (s\<lparr>entries := []\<rparr>) =
       \<lparr>totalEntries = 0, filesExplored = 0, searchQueries = 0, listOperations = 0,
        keyFindings = [], confidenceScore = 0\<rparr>"
    by (simp add: generateSummary_fl_def)
qed

text \<open>
  In \<open>rounding_world\<close> the three confidences lie between 0 and 1; the score is
  0.19999999999999998, within the bound of their mean and not equal to it.
\<close>

theorem generateSummary_confidenceScore_rounded_mean_witness:
  "confidenceScore (generateSummary_fl binary64 example_tools (pad rounding_world)) = 7205759403792793 / 2 ^ 55
   \<and> (binary64 (1 / 10) + binary64 (1 / 5) + binary64 (3 / 10)) / 3 = 21617278211378381 / (3 * 2 ^ 55)
   \<and> \<bar>7205759403792793 / 2 ^ 55 - 21617278211378381 / (3 * 2 ^ 55)\<bar>
        \<le> ((1 + unit_roundoff) ^ 4 - 1) * (21617278211378381 / (3 * 2 ^ 55) + smallest_normal)
   \<and> (7205759403792793 / 2 ^ 55 :: real) < 21617278211378381 / (3 * 2 ^ 55)"
proof -
  let ?es = "[example_entry (utf16 ''read_file'') (utf16 ''a.ts'') None (binary64 (1 / 10)),
              example_entry (utf16 ''read_file'') (utf16 ''b.ts'') None (binary64 (1 / 5)),
              example_entry (utf16 ''read_file'') (utf16 ''c.ts'') None (binary64 (3 / 10))]"
  have m: "(binary64 (1 / 10) + binary64 (1 / 5) + binary64 (3 / 10)) / 3 = 21617278211378381 / (3 * 2 ^ 55)"
    by (simp add: binary64_tenth binary64_fifth binary64_three_tenths)
  have w0: "(new_World example_env)\<lparr>pad := (pad (new_World example_env))\<lparr>entries := []\<rparr>\<rparr>
              = new_World example_env"
    by (simp add: new_World_def new_ExplorationScratchpad_def split_beta Let_def)
  have h: "\<forall>e\<in>set ?es. 0 \<le> confidence e \<and> confidence e \<le> 1"
    by (simp add: example_entry_def binary64_tenth binary64_fifth binary64_three_tenths)
  have s: "sum_list (map confidence ?es) / real (length ?es) = 21617278211378381 / (3 * 2 ^ 55)"
    using m by (simp add: example_entry_def)
  have "\<bar>confidenceScore (generateSummary_fl binary64 example_tools (pad rounding_world))
          - 21617278211378381 / (3 * 2 ^ 55)\<bar>
        \<le> ((1 + unit_roundoff) ^ 4 - 1) * (21617278211378381 / (3 * 2 ^ 55) + smallest_normal)"
    using generateSummary_confidenceScore_rounded_mean[of ?es example_tools "new_World example_env"
        "pad (new_World example_env)"] h
    unfolding w0 s rounding_world_def[symmetric] by (simp add: eval_nat_numeral)
  moreover have "(7205759403792793 / 2 ^ 55 :: real) < 21617278211378381 / (3 * 2 ^ 55)"
    by simp
  ultimately show ?thesis
    using m by (simp only: score_rounding_world simp_thms)
qed

section \<open>The phase\<close>

text \<open>
  C4: along any number of \<^verbatim>\<open>transitionToNextPhase\<close> calls the phase walks through
  EXPLORE < THINK < EXECUTE: after \<open>n\<close> calls its rank is the starting rank plus \<open>n\<close>,
  capped at EXECUTE, so each call moves it up by one step or, at EXECUTE, not at all; it
  never decreases, and a call at EXECUTE changes nothing.
\<close>

theorem transitionToNextPhase_walk:
  "Phase_rank (currentPhase ((transitionToNextPhase ^^ n) s)) = min 2 (Phase_rank (currentPhase s) + n)
   \<and> Phase_rank (currentPhase (transitionToNextPhase s)) = min 2 (Phase_rank (currentPhase s) + 1)
   \<and> transitionToNextPhase (s\<lparr>currentPhase := EXECUTE\<rparr>) = s\<lparr>currentPhase := EXECUTE\<rparr>"
proof -
  have step: "\<And>s. Phase_rank (currentPhase (transitionToNextPhase s)) = min 2 (Phase_rank (currentPhase s) + 1)"
    by (simp add: transitionToNextPhase_def Phase_rank_def split: Phase.splits)
  have "Phase_rank (currentPhase ((transitionToNextPhase ^^ n) s)) = min 2 (Phase_rank (currentPhase s) + n)"
  proof (induction n)
    case 0
    show ?case by (simp add: Phase_rank_def split: Phase.splits)
  next
    case (Suc n)
    then show ?case by (simp add: step)
  qed
  then show ?thesis
    by (simp add: step) (simp add: transitionToNextPhase_def)
qed

section \<open>The cache key\<close>

lemma cache_addEntry:
  "cache (pad (addEntry e w)) k =
     (if k = generateCacheKey (toolName e) (query e) (filePath e)
      then Some (e\<lparr>timestamp := fst (Date_now (env w))\<rparr>) else cache (pad w) k)"
  by (simp add: addEntry_def Let_def split_beta)

lemma hasExplored_addEntry:
  "hasExplored (pad (addEntry e w)) tool q fp \<longleftrightarrow>
     generateCacheKey (toolName e) (query e) (filePath e) = generateCacheKey tool q fp
     \<or> hasExplored (pad w) tool q fp"
  by (auto simp: hasExplored_def cache_addEntry)

lemma hasExplored_addEntries:
  "hasExplored (pad (addEntries es w)) tool q fp \<longleftrightarrow>
     hasExplored (pad w) tool q fp
     \<or> (\<exists>e\<in>set es. generateCacheKey (toolName e) (query e) (filePath e) = generateCacheKey tool q fp)"
  by (induction es arbitrary: w) (auto simp: hasExplored_addEntry)

lemma new_World_not_explored: "\<not> hasExplored (pad (new_World e)) tool q fp"
  by (simp add: hasExplored_def new_World_def new_ExplorationScratchpad_def split_beta Let_def)

lemma generateCacheKey_unfold:
  "generateCacheKey tool q fp =
     toLowerCase (tool @ utf16 '':'' @ q
        @ (case fp of None \<Rightarrow> [] | Some p \<Rightarrow> if p \<noteq> [] then utf16 '':'' @ p else []))"
  by (simp add: generateCacheKey_def Let_def split: option.splits)

subsection \<open>Code units below 256\<close>

text \<open>Without a capital sigma the context plays no part: each code unit is lowered alone.\<close>

lemma toLowerCase_from_latin1: "latin1 s \<Longrightarrow> toLowerCase_from b s = map toLowerCase_unit s"
  by (induction s arbitrary: b) (auto simp: latin1_def)

lemma toLowerCase_latin1: "latin1 s \<Longrightarrow> toLowerCase s = map toLowerCase_unit s"
proof -
  assume l: "latin1 s"
  then have "list_all in_repertoire s"
    by (simp add: latin1_def in_repertoire_def list_all_iff)
  then show ?thesis
    by (simp add: toLowerCase_def toLowerCase_from_latin1 l)
qed

lemma latin1_append [simp]: "latin1 (a @ b) \<longleftrightarrow> latin1 a \<and> latin1 b"
  by (auto simp: latin1_def)

lemma latin1_utf16 [simp]: "latin1 (utf16 a)"
  by (simp add: latin1_def utf16_def list_all_iff)

lemma generateCacheKey_latin1:
  assumes "latin1 tool" "latin1 q" "latin1_opt fp"
  shows "generateCacheKey tool q fp =
     map toLowerCase_unit tool @ utf16 '':'' @ map toLowerCase_unit q
       @ (case fp of None \<Rightarrow> [] | Some p \<Rightarrow> if p \<noteq> [] then utf16 '':'' @ map toLowerCase_unit p else [])"
proof -
  have c: "map toLowerCase_unit (utf16 '':'') = utf16 '':''"
    by (simp add: utf16_def toLowerCase_unit_def)
  show ?thesis
    using assms
    by (cases fp) (simp_all add: generateCacheKey_def Let_def toLowerCase_latin1 latin1_opt_def c)
qed

lemma toLowerCase_unit_same_letter: "same_letter x y \<Longrightarrow> toLowerCase_unit x = toLowerCase_unit y"
  by (auto simp: same_letter_def capital_def toLowerCase_unit_def)

lemma map_toLowerCase_unit_same: "same_up_to_case a b \<Longrightarrow> map toLowerCase_unit a = map toLowerCase_unit b"
  unfolding same_up_to_case_def
  by (induction a b rule: list_all2_induct) (simp_all add: toLowerCase_unit_same_letter)

lemma same_up_to_case_latin1: "same_up_to_case a b \<Longrightarrow> latin1 b \<Longrightarrow> latin1 a"
  unfolding same_up_to_case_def latin1_def
  by (induction a b rule: list_all2_induct) (auto simp: same_letter_def capital_def)

lemma same_up_to_case_Nil: "same_up_to_case a b \<Longrightarrow> a = [] \<longleftrightarrow> b = []"
  by (auto simp: same_up_to_case_def)

lemma generateCacheKey_case_insensitive:
  assumes "latin1 tool" "latin1 q" "latin1_opt fp"
      and t: "same_up_to_case tool' tool"
      and q: "same_up_to_case q' q"
      and p: "rel_option same_up_to_case fp' fp"
  shows "generateCacheKey tool' q' fp' = generateCacheKey tool q fp"
proof -
  have l: "latin1 tool'" "latin1 q'"
    using assms by (auto intro: same_up_to_case_latin1)
  have lp: "latin1_opt fp'"
    using p assms(3) by (cases fp'; cases fp) (auto simp: latin1_opt_def intro: same_up_to_case_latin1)
  have "(case fp' of None \<Rightarrow> [] | Some p \<Rightarrow> if p \<noteq> [] then utf16 '':'' @ map toLowerCase_unit p else [])
      = (case fp of None \<Rightarrow> [] | Some p \<Rightarrow> if p \<noteq> [] then utf16 '':'' @ map toLowerCase_unit p else [])"
    using p by (cases fp'; cases fp) (auto simp: map_toLowerCase_unit_same same_up_to_case_Nil)
  then show ?thesis
    using assms(1-3) l lp
    by (simp add: generateCacheKey_latin1 map_toLowerCase_unit_same[OF t] map_toLowerCase_unit_same[OF q])
qed

subsection \<open>Lookup by key\<close>

text \<open>
  C5, as stated: after \<^verbatim>\<open>addEntry\<close>, \<^verbatim>\<open>hasExplored\<close> is true for any arguments that
  differ from the entry's only in letter case. The key is lowered as one string, and
  there a capital sigma that ends the key becomes a final sigma: the query of one capital
  sigma (931) is stored under \<^verbatim>\<open>search:\<close> followed by a final sigma (962), and the query of
  one small sigma (963), which has the same lower case as the capital one, is looked up
  under \<^verbatim>\<open>search:\<close> followed by a small sigma and not found.
\<close>

theorem hasExplored_misses_final_sigma:
  "toLowerCase [931] = toLowerCase [963]
   \<and> \<not> hasExplored (pad (addEntry (example_entry (utf16 ''SEARCH'') [931] None 0.9) (new_World example_env)))
        (utf16 ''SEARCH'') [963] None
   \<and> generateCacheKey (utf16 ''SEARCH'') [931] None = utf16 ''search:'' @ [962]
   \<and> generateCacheKey (utf16 ''SEARCH'') [963] None = utf16 ''search:'' @ [963]"
proof -
  have k1: "generateCacheKey (utf16 ''SEARCH'') [931] None = utf16 ''search:'' @ [962]"
    by (simp add: generateCacheKey_def toLowerCase_def utf16_def in_repertoire_def followed_by_cased_def
          case_ignorable_def cased_def toLowerCase_unit_def)
  have k2: "generateCacheKey (utf16 ''SEARCH'') [963] None = utf16 ''search:'' @ [963]"
    by (simp add: generateCacheKey_def toLowerCase_def utf16_def in_repertoire_def followed_by_cased_def
          case_ignorable_def cased_def toLowerCase_unit_def)
  have l: "toLowerCase [931] = toLowerCase [963]"
    by (simp add: toLowerCase_def in_repertoire_def followed_by_cased_def toLowerCase_unit_def)
  have "\<not> hasExplored (pad (addEntry (example_entry (utf16 ''SEARCH'') [931] None 0.9) (new_World example_env)))
        (utf16 ''SEARCH'') [963] None"
    by (simp add: hasExplored_addEntry new_World_not_explored example_entry_def k1 k2)
  with k1 k2 l show ?thesis by simp
qed

text \<open>
  C5, amended: after a sequence of \<^verbatim>\<open>addEntry\<close> calls, \<^verbatim>\<open>hasExplored\<close> is true exactly
  for the arguments whose key is the key of one of the entries added, or was in the cache
  before; on a new scratchpad it is false. The key is the concatenation of the tool name,
  a colon, the query and, when a non-empty path is given, a colon and the path, lowered as
  one string. When the tool name, the query and the path of an entry have their code
  units below 256, arguments that differ from them only in letter case are found after
  the entry is added.
\<close>

theorem hasExplored_normalised_key:
  "(hasExplored (pad (addEntries es w)) tool q fp \<longleftrightarrow>
      hasExplored (pad w) tool q fp
      \<or> (\<exists>e\<in>set es. generateCacheKey (toolName e) (query e) (filePath e) = generateCacheKey tool q fp))
   \<and> \<not> hasExplored (pad (new_World en)) tool q fp
   \<and> generateCacheKey tool q fp =
       toLowerCase (tool @ utf16 '':'' @ q
          @ (case fp of None \<Rightarrow> [] | Some p \<Rightarrow> if p \<noteq> [] then utf16 '':'' @ p else []))
   \<and> (latin1 (toolName entry) \<and> latin1 (query entry) \<and> latin1_opt (filePath entry)
        \<and> same_up_to_case tool' (toolName entry)
        \<and> same_up_to_case q' (query entry)
        \<and> rel_option same_up_to_case fp' (filePath entry)
      \<longrightarrow> hasExplored (pad (addEntry entry w')) tool' q' fp')"
proof (intro conjI impI)
  show "hasExplored (pad (addEntries es w)) tool q fp \<longleftrightarrow>
      hasExplored (pad w) tool q fp
      \<or> (\<exists>e\<in>set es. generateCacheKey (toolName e) (query e) (filePath e) = generateCacheKey tool q fp)"
    by (rule hasExplored_addEntries)
  show "\<not> hasExplored (pad (new_World en)) tool q fp"
    by (rule new_World_not_explored)
  show "generateCacheKey tool q fp =
       toLowerCase (tool @ utf16 '':'' @ q
          @ (case fp of None \<Rightarrow> [] | Some p \<Rightarrow> if p \<noteq> [] then utf16 '':'' @ p else []))"
    by (rule generateCacheKey_unfold)
next
  assume h: "latin1 (toolName entry) \<and> latin1 (query entry) \<and> latin1_opt (filePath entry)
        \<and> same_up_to_case tool' (toolName entry)
        \<and> same_up_to_case q' (query entry)
        \<and> rel_option same_up_to_case fp' (filePath entry)"
  then have "generateCacheKey tool' q' fp' = generateCacheKey (toolName entry) (query entry) (filePath entry)"
    by (intro generateCacheKey_case_insensitive) simp_all
  then show "hasExplored (pad (addEntry entry w')) tool' q' fp'"
    by (simp add: hasExplored_addEntry)
qed

text \<open>
  After \<^verbatim>\<open>addEntry\<close> with \<^verbatim>\<open>SEARCH\<close>, \<^verbatim>\<open>Auth\<close> and \<^verbatim>\<open>X\<close> the arguments \<^verbatim>\<open>SEARCH\<close>,
  \<^verbatim>\<open>auth\<close> and \<^verbatim>\<open>x\<close> are found, under the key \<^verbatim>\<open>search:auth:x\<close>; the query
  \<^verbatim>\<open>author\<close> is not.
\<close>

theorem hasExplored_normalised_key_witness:
  "hasExplored (pad (addEntry (example_entry (utf16 ''SEARCH'') (utf16 ''Auth'') (Some (utf16 ''X'')) 0.9)
        (new_World example_env))) (utf16 ''SEARCH'') (utf16 ''auth'') (Some (utf16 ''x''))
   \<and> generateCacheKey (utf16 ''SEARCH'') (utf16 ''Auth'') (Some (utf16 ''X'')) = utf16 ''search:auth:x''
   \<and> generateCacheKey (utf16 ''SEARCH'') (utf16 ''auth'') (Some (utf16 ''x'')) = utf16 ''search:auth:x''
   \<and> \<not> hasExplored (pad (addEntry (example_entry (utf16 ''SEARCH'') (utf16 ''Auth'') (Some (utf16 ''X'')) 0.9)
        (new_World example_env))) (utf16 ''SEARCH'') (utf16 ''author'') (Some (utf16 ''x''))"
proof -
  let ?e = "example_entry (utf16 ''SEARCH'') (utf16 ''Auth'') (Some (utf16 ''X'')) 0.9"
  have l: "same_up_to_case (utf16 ''SEARCH'') (utf16 ''SEARCH'')"
          "same_up_to_case (utf16 ''auth'') (utf16 ''Auth'')"
          "same_up_to_case (utf16 ''x'') (utf16 ''X'')"
    by (simp_all add: same_up_to_case_def same_letter_def capital_def utf16_def)
  have k: "generateCacheKey (utf16 ''SEARCH'') (utf16 ''Auth'') (Some (utf16 ''X'')) = utf16 ''search:auth:x''"
          "generateCacheKey (utf16 ''SEARCH'') (utf16 ''auth'') (Some (utf16 ''x'')) = utf16 ''search:auth:x''"
          "generateCacheKey (utf16 ''SEARCH'') (utf16 ''author'') (Some (utf16 ''x'')) = utf16 ''search:author:x''"
    by (simp_all add: generateCacheKey_latin1 latin1_opt_def) (simp_all add: utf16_def toLowerCase_unit_def)
  show ?thesis
    using hasExplored_normalised_key[where es = "[?e]" and w = "new_World example_env"
        and tool = "utf16 ''SEARCH''" and q = "utf16 ''author''" and fp = "Some (utf16 ''x'')"
        and en = example_env and entry = ?e and tool' = "utf16 ''SEARCH''" and q' = "utf16 ''auth''"
        and fp' = "Some (utf16 ''x'')" and w' = "new_World example_env"]
    by (simp add: l k example_entry_def latin1_opt_def)
qed

section \<open>Tough reasoning\<close>

lemma fst_calculateSophisticatedConfidence:
  "fst (calculateSophisticatedConfidence summary i w) = confidence_formula summary i (elapsed_at w 0)"
  by (simp add: calculateSophisticatedConfidence_def Let_def split_beta getExplorationDuration_def
        Date_now_def confidence_formula_def elapsed_at_def)

lemma elapsed_at_performDeepAnalysis:
  "elapsed_at (snd (performDeepAnalysis summary w)) 0 = elapsed_at w 1"
  by (simp add: performDeepAnalysis_def Let_def split_beta getExplorationDuration_def Date_now_def
        elapsed_at_def)

text \<open>
  The confidence of iteration \<open>i\<close> is the formula at the elapsed time read in that
  iteration: the next reading in iterations 1 to 3, the one after it from iteration 4 on,
  where the deep analysis reads the clock first.
\<close>

lemma toughReasoning_body_confidence:
  "fst (snd (snd (toughReasoning_body T i st w))) =
     confidence_formula (generateSummary T (pad w)) i
       (elapsed_at w (if i = 1 \<or> i = 2 \<or> i = 3 then 0 else 1))"
  by (simp add: toughReasoning_body_def Let_def split_beta fst_calculateSophisticatedConfidence
        elapsed_at_performDeepAnalysis)

lemma confidence_formula_bounds:
  assumes "0 \<le> confidenceScore summary" "0 \<le> elapsedMs"
  shows "0 \<le> confidence_formula summary i elapsedMs \<and> confidence_formula summary i elapsedMs \<le> 1"
proof -
  have "0 \<le> confidenceScore summary * min 1 (real (totalEntries summary) / 10)"
    using assms(1) by (intro mult_nonneg_nonneg) simp_all
  moreover have "0 \<le> min 0.2 (real i * 0.05)"
    by simp
  moreover have "0 \<le> min 0.1 (real_of_int elapsedMs / 60000)"
    using assms(2) by simp
  ultimately show ?thesis
    by (simp add: confidence_formula_def)
qed

lemma sum_list_confidence_bounds:
  "(\<And>e. e \<in> set xs \<Longrightarrow> 0 \<le> confidence e \<and> confidence e \<le> 1)
   \<Longrightarrow> 0 \<le> sum_list (map confidence xs) \<and> sum_list (map confidence xs) \<le> real (length xs)"
proof (induction xs)
  case Nil
  show ?case by simp
next
  case (Cons x xs)
  have "0 \<le> confidence x \<and> confidence x \<le> 1"
    using Cons.prems by simp
  moreover have "0 \<le> sum_list (map confidence xs) \<and> sum_list (map confidence xs) \<le> real (length xs)"
    using Cons.IH Cons.prems by simp
  ultimately show ?case by simp
qed

text \<open>With every stored confidence in the unit interval, so is the mean.\<close>

lemma confidenceScore_bounds:
  assumes "\<And>e. e \<in> set (entries s) \<Longrightarrow> 0 \<le> confidence e \<and> confidence e \<le> 1"
  shows "0 \<le> confidenceScore (generateSummary T s) \<and> confidenceScore (generateSummary T s) \<le> 1"
proof (cases "entries s = []")
  case True
  then show ?thesis by (simp add: confidenceScore_generateSummary)
next
  case False
  then have "0 < real (length (entries s))" by simp
  with sum_list_confidence_bounds[of "entries s"] assms show ?thesis
    by (simp add: confidenceScore_generateSummary False divide_le_eq)
qed

text \<open>
  The counter that the loop returns: at least the starting value, at most one more than
  \<open>maxIterations\<close>.
\<close>

lemma toughReasoning_for_iterations:
  "i \<le> iterations (fst (toughReasoning_for T m c i cc co st w))
   \<and> iterations (fst (toughReasoning_for T m c i cc co st w)) \<le> max i (Suc m)"
proof (induction T m c i cc co st w rule: toughReasoning_for.induct)
  case (1 T m c i cc co st w)
  obtain summary steps2 conf w2 where b: "toughReasoning_body T i st w = (summary, steps2, conf, w2)"
    by (cases "toughReasoning_body T i st w") auto
  show ?case
  proof (cases "i \<le> m \<and> \<not> c \<le> conf")
    case True
    then have "i + 1 \<le> iterations (fst (toughReasoning_for T m c (i + 1) conf co steps2 w2))
       \<and> iterations (fst (toughReasoning_for T m c (i + 1) conf co steps2 w2)) \<le> max (i + 1) (Suc m)"
      using "1.IH"[OF _ b[symmetric]] by simp
    with True show ?thesis
      by (subst (1 2) toughReasoning_for.simps) (auto simp add: b)
  next
    case False
    then show ?thesis
      by (subst (1 2) toughReasoning_for.simps) (auto simp add: b)
  qed
qed

text \<open>A count within \<open>maxIterations\<close> means the loop was left by \<^verbatim>\<open>break\<close>.\<close>

lemma toughReasoning_for_stopped:
  "iterations (fst (toughReasoning_for T m c i cc co st w)) \<le> m
   \<Longrightarrow> c \<le> tough_confidence (fst (toughReasoning_for T m c i cc co st w))"
proof (induction T m c i cc co st w rule: toughReasoning_for.induct)
  case (1 T m c i cc co st w)
  obtain summary steps2 conf w2 where b: "toughReasoning_body T i st w = (summary, steps2, conf, w2)"
    by (cases "toughReasoning_body T i st w") auto
  show ?case
  proof (cases "i \<le> m")
    case False
    then have "iterations (fst (toughReasoning_for T m c i cc co st w)) = i"
      by (subst toughReasoning_for.simps) simp
    with False "1.prems" show ?thesis by simp
  next
    case True
    show ?thesis
    proof (cases "c \<le> conf")
      case True
      with \<open>i \<le> m\<close> show ?thesis
        by (subst toughReasoning_for.simps) (simp add: b)
    next
      case False
      with \<open>i \<le> m\<close> have eq:
        "toughReasoning_for T m c i cc co st w = toughReasoning_for T m c (i + 1) conf co steps2 w2"
        by (subst toughReasoning_for.simps) (simp add: b)
      show ?thesis
        using "1.IH"[OF \<open>i \<le> m\<close> b[symmetric] _ refl refl False] "1.prems" False
        unfolding eq by simp
    qed
  qed
qed

text \<open>
  When no iteration reaches \<open>minConfidence\<close> the count returned is \<open>maxIterations + 1\<close>:
  the \<^verbatim>\<open>for\<close> statement increments the counter once more before its condition fails.
\<close>

lemma toughReasoning_for_exhausted:
  "i \<le> m \<or> cc < c \<Longrightarrow> m < iterations (fst (toughReasoning_for T m c i cc co st w))
   \<Longrightarrow> tough_confidence (fst (toughReasoning_for T m c i cc co st w)) < c
       \<and> iterations (fst (toughReasoning_for T m c i cc co st w)) = max i (Suc m)"
proof (induction T m c i cc co st w rule: toughReasoning_for.induct)
  case (1 T m c i cc co st w)
  obtain summary steps2 conf w2 where b: "toughReasoning_body T i st w = (summary, steps2, conf, w2)"
    by (cases "toughReasoning_body T i st w") auto
  show ?case
  proof (cases "i \<le> m")
    case False
    with "1.prems" show ?thesis
      by (subst (1 2) toughReasoning_for.simps) auto
  next
    case True
    show ?thesis
    proof (cases "c \<le> conf")
      case True
      with \<open>i \<le> m\<close> have "iterations (fst (toughReasoning_for T m c i cc co st w)) = i"
        by (subst toughReasoning_for.simps) (simp add: b)
      with \<open>i \<le> m\<close> "1.prems" show ?thesis by simp
    next
      case False
      with \<open>i \<le> m\<close> have eq:
        "toughReasoning_for T m c i cc co st w = toughReasoning_for T m c (i + 1) conf co steps2 w2"
        by (subst toughReasoning_for.simps) (simp add: b)
      show ?thesis
        using "1.IH"[OF \<open>i \<le> m\<close> b[symmetric] _ refl refl False] "1.prems" False \<open>i \<le> m\<close>
        unfolding eq by auto
    qed
  qed
qed

lemma toughReasoning_iterations:
  "1 \<le> iterations (fst (toughReasoning T m c w)) \<and> iterations (fst (toughReasoning T m c w)) \<le> max 1 (Suc m)"
  using toughReasoning_for_iterations[of 1 T m c 0 "[S (utf16 ''Insufficient data for conclusion'')]" "[]" w]
  by (simp add: toughReasoning_def)

lemma toughReasoning_stopped:
  "iterations (fst (toughReasoning T m c w)) \<le> m \<Longrightarrow> c \<le> tough_confidence (fst (toughReasoning T m c w))"
  by (simp add: toughReasoning_def toughReasoning_for_stopped)

lemma toughReasoning_exhausted:
  "1 \<le> m \<Longrightarrow> m < iterations (fst (toughReasoning T m c w))
   \<Longrightarrow> tough_confidence (fst (toughReasoning T m c w)) < c \<and> iterations (fst (toughReasoning T m c w)) = Suc m"
  using toughReasoning_for_exhausted[of 1 m 0 c T "[S (utf16 ''Insufficient data for conclusion'')]" "[]" w]
  by (simp add: toughReasoning_def)

text \<open>
  With every stored confidence in the unit interval and a clock that never shows a time
  before the scratchpad's start, the confidence returned lies in the unit interval.
\<close>

lemma now_readings_getExplorationDuration [simp]:
  "now_readings (env (snd (getExplorationDuration w))) = now_readings (env w)"
  by (simp add: getExplorationDuration_def Date_now_def split_beta)

lemma now_readings_toughReasoning_body:
  "now_readings (env (snd (snd (snd (toughReasoning_body T i st w))))) = now_readings (env w)"
  by (simp add: toughReasoning_body_def Let_def split_beta calculateSophisticatedConfidence_def
        performDeepAnalysis_def)

lemma toughReasoning_for_confidence_bounds:
  assumes "0 \<le> confidenceScore (generateSummary T (pad w))"
      and "\<And>k. explorationStartTime (pad w) \<le> now_readings (env w) k"
      and "0 \<le> cc \<and> cc \<le> 1"
  shows "0 \<le> tough_confidence (fst (toughReasoning_for T m c i cc co st w))
       \<and> tough_confidence (fst (toughReasoning_for T m c i cc co st w)) \<le> 1"
  using assms
proof (induction T m c i cc co st w rule: toughReasoning_for.induct)
  case (1 T m c i cc co st w)
  obtain summary steps2 conf w2 where b: "toughReasoning_body T i st w = (summary, steps2, conf, w2)"
    by (cases "toughReasoning_body T i st w") auto
  have pad2: "pad w2 = pad w"
    using only_env_toughReasoning_body[of w T i st] by (simp add: b only_env_def)
  have now2: "now_readings (env w2) = now_readings (env w)"
    using now_readings_toughReasoning_body[of T i st w] by (simp add: b)
  have "conf = confidence_formula (generateSummary T (pad w)) i
                 (elapsed_at w (if i = 1 \<or> i = 2 \<or> i = 3 then 0 else 1))"
    using toughReasoning_body_confidence[of T i st w] by (simp add: b)
  moreover have "0 \<le> elapsed_at w (if i = 1 \<or> i = 2 \<or> i = 3 then 0 else 1)"
    using "1.prems"(2) by (simp add: elapsed_at_def)
  ultimately have conf: "0 \<le> conf \<and> conf \<le> 1"
    using confidence_formula_bounds[OF "1.prems"(1)] by simp
  show ?case
  proof (cases "i \<le> m")
    case False
    with "1.prems"(3) show ?thesis
      by (subst (1 2) toughReasoning_for.simps) simp
  next
    case True
    show ?thesis
    proof (cases "c \<le> conf")
      case True
      with \<open>i \<le> m\<close> conf show ?thesis
        by (subst (1 2) toughReasoning_for.simps) (simp add: b)
    next
      case False
      with \<open>i \<le> m\<close> have eq:
        "toughReasoning_for T m c i cc co st w = toughReasoning_for T m c (i + 1) conf co steps2 w2"
        by (subst toughReasoning_for.simps) (simp add: b)
      show ?thesis
        unfolding eq
        using "1.IH"[OF \<open>i \<le> m\<close> b[symmetric] _ refl refl False] "1.prems"(1,2) conf
        by (simp add: pad2 now2)
    qed
  qed
qed

lemma toughReasoning_confidence_bounds:
  assumes "\<And>e. e \<in> set (entries (pad w)) \<Longrightarrow> 0 \<le> confidence e \<and> confidence e \<le> 1"
      and "\<And>k. explorationStartTime (pad w) \<le> now_readings (env w) k"
  shows "0 \<le> tough_confidence (fst (toughReasoning T m c w))
       \<and> tough_confidence (fst (toughReasoning T m c w)) \<le> 1"
  unfolding toughReasoning_def
  using confidenceScore_bounds[of "pad w" T] assms
  by (intro toughReasoning_for_confidence_bounds) simp_all

text \<open>
  C1: \<^verbatim>\<open>toughReasoning(maxIterations, minConfidence)\<close> returns an iteration count between
  1 and \<open>maxIterations\<close>. On a new scratchpad with \<open>maxIterations = 1\<close> and
  \<open>minConfidence = 0.85\<close> the single iteration computes the confidence 0.055 (iteration
  bonus 0.05, time bonus 0.005 for 300 ms), the loop ends without a \<^verbatim>\<open>break\<close>, and the
  count returned is 2.
\<close>

theorem toughReasoning_returns_maxIterations_plus_one:
  "iterations (fst (toughReasoning example_tools 1 0.85 (new_World example_env))) = 2
   \<and> tough_confidence (fst (toughReasoning example_tools 1 0.85 (new_World example_env))) = 0.055"
  by (simp add: toughReasoning_def toughReasoning_for.simps toughReasoning_body_def
       calculateSophisticatedConfidence_def getExplorationDuration_def Date_now_def
       new_World_def new_ExplorationScratchpad_def new_ThinkingEngine_def example_env_def
       generateSummary_def Let_def split_beta)

section \<open>What the thinking engine leaves unchanged\<close>

lemma pad_addThinkingStep [simp]: "pad (addThinkingStep ph act rsn conf ev nxt w) = pad w"
  by (simp add: addThinkingStep_def split_beta)

lemma steps_addThinkingStep [simp]:
  "map (\<lambda>s. (action s, step_confidence s))
       (thinkingSteps (thinkingEngine (addThinkingStep ph act rsn conf ev nxt w)))
     = map (\<lambda>s. (action s, step_confidence s)) (thinkingSteps (thinkingEngine w)) @ [(act, conf)]"
  by (simp add: addThinkingStep_def split_beta)

lemma pad_buildDecisionContext [simp]: "pad (snd (buildDecisionContext T w)) = pad w"
  by (simp add: buildDecisionContext_def split_beta)

lemma thinkingEngine_buildDecisionContext [simp]:
  "thinkingEngine (snd (buildDecisionContext T w)) = thinkingEngine w"
  by (simp add: buildDecisionContext_def split_beta)

lemma pad_toughReasoning [simp]: "pad (snd (toughReasoning T m c w)) = pad w"
  using only_env_toughReasoning[of w T m c] by (simp add: only_env_def)

lemma thinkingEngine_toughReasoning [simp]:
  "thinkingEngine (snd (toughReasoning T m c w)) = thinkingEngine w"
  using only_env_toughReasoning[of w T m c] by (simp add: only_env_def)

lemma intelligentThinkingSystem_toughReasoning [simp]:
  "intelligentThinkingSystem (snd (toughReasoning T m c w)) = intelligentThinkingSystem w"
  using only_env_toughReasoning[of w T m c] by (simp add: only_env_def)

lemma pad_makeFinalDecision [simp]: "pad (snd (makeFinalDecision T w)) = pad w"
  by (simp add: makeFinalDecision_def Let_def split_beta)

lemma decision_confidence_makeFinalDecision:
  "decision_confidence (fst (makeFinalDecision T w)) = confidenceScore (generateSummary T (pad w))"
  by (simp add: makeFinalDecision_def Let_def split_beta generateFinalDecision_def)

text \<open>
  C10: \<^verbatim>\<open>toughReasoning\<close> leaves the scratchpad as it was: entry log, cache, phase and
  start time are the same after the call (as are the engine and the thinking system; only
  clock readings are consumed). So the confidence score that \<^verbatim>\<open>makeFinalDecision\<close>
  buckets, and returns as its confidence, is the score it read before the tough reasoning
  pass, and \<^verbatim>\<open>makeFinalDecision\<close> leaves the scratchpad unchanged too.
\<close>

theorem toughReasoning_leaves_scratchpad:
  "pad (snd (toughReasoning T maxIterations minConfidence w)) = pad w
   \<and> thinkingEngine (snd (toughReasoning T maxIterations minConfidence w)) = thinkingEngine w
   \<and> intelligentThinkingSystem (snd (toughReasoning T maxIterations minConfidence w))
       = intelligentThinkingSystem w
   \<and> pad (snd (makeFinalDecision T w)) = pad w
   \<and> decision_confidence (fst (makeFinalDecision T w)) = confidenceScore (generateSummary T (pad w))"
  by (simp add: decision_confidence_makeFinalDecision)

section \<open>The final decision\<close>

lemma confidenceScore_confident_world:
  "confidenceScore (generateSummary example_tools (pad confident_world)) = 0.95"
  by (simp add: confident_world_def generateSummary_def addEntry_def Let_def split_beta Date_now_def
        example_entry_def new_World_def new_ExplorationScratchpad_def new_ThinkingEngine_def)

text \<open>
  C6: \<^verbatim>\<open>makeFinalDecision\<close> appends to the step log a tough reasoning step, carrying the
  confidence of one \<^verbatim>\<open>toughReasoning(5, 0.85)\<close> pass, exactly when the confidence score is
  below 0.8, and then the final decision step; the decision and its plan are chosen by the
  confidence score: above 0.9 the high-confidence decision, above 0.7 the moderate one,
  otherwise the decision that more analysis is needed. Every plan has three steps.
\<close>

theorem makeFinalDecision_buckets:
  "map (\<lambda>s. (action s, step_confidence s)) (thinkingSteps (thinkingEngine (snd (makeFinalDecision T w)))) =
     map (\<lambda>s. (action s, step_confidence s)) (thinkingSteps (thinkingEngine w))
     @ (if confidenceScore (generateSummary T (pad w)) < 0.8
        then [(utf16 ''tough_reasoning'', tough_confidence (fst (toughReasoning T 5 0.85 w)))] else [])
     @ [(utf16 ''final_decision'', confidenceScore (generateSummary T (pad w)))]
   \<and> (decision (fst (makeFinalDecision T w)), actionPlan (fst (makeFinalDecision T w))) =
       (if confidenceScore (generateSummary T (pad w)) > 0.9 then
          (utf16 (''Solu'' @ [CHR 0xE7, CHR 0xE3] @ ''o clara identificada com alta confian'' @ [CHR 0xE7] @ ''a''),
           [utf16 (''Executar mudan'' @ [CHR 0xE7] @ ''as necess'' @ [CHR 0xE1]
               @ ''rias''), utf16 (''Validar implementa'' @ [CHR 0xE7, CHR 0xE3]
                   @ ''o''), utf16 ''Testar funcionalidade''])
        else if confidenceScore (generateSummary T (pad w)) > 0.7 then
          (utf16 (''Solu'' @ [CHR 0xE7, CHR 0xE3] @ ''o identificada com confian'' @ [CHR 0xE7] @ ''a moderada''),
           [utf16 (''Implementar solu'' @ [CHR 0xE7, CHR 0xE3]
               @ ''o proposta''), utf16 ''Verificar se resolve o problema'',
            utf16 (''Preparar ajustes se necess'' @ [CHR 0xE1] @ ''rio'')])
        else
          (utf16 (''Mais an'' @ [CHR 0xE1] @ ''lise necess'' @ [CHR 0xE1] @ ''ria antes de decis'' @ [CHR 0xE3]
              @ ''o final''),
           [utf16 (''Continuar explora'' @ [CHR 0xE7, CHR 0xE3] @ ''o''), utf16 (''Coletar mais evid'' @ [CHR 0xEA]
               @ ''ncias''), utf16 ''Reavaliar abordagem'']))
   \<and> length (actionPlan (fst (makeFinalDecision T w))) = 3"
  by (simp add: makeFinalDecision_def Let_def split_beta generateFinalDecision_def)

text \<open>
  At the confidence score 0.95 the decision reads, in Portuguese, "clear solution
  identified with high confidence", and the plan has three steps.
\<close>

theorem makeFinalDecision_buckets_witness:
  "confidenceScore (generateSummary example_tools (pad confident_world)) = 0.95
   \<and> decision (fst (makeFinalDecision example_tools confident_world))
      = utf16 (''Solu'' @ [CHR 0xE7, CHR 0xE3] @ ''o clara identificada com alta confian'' @ [CHR 0xE7] @ ''a'')
   \<and> str_includes (decision (fst (makeFinalDecision example_tools confident_world))) (utf16 (''alta confian'' @ [CHR 0xE7] @ ''a''))
   \<and> length (actionPlan (fst (makeFinalDecision example_tools confident_world))) = 3"
  using makeFinalDecision_buckets[of example_tools confident_world]
  by (simp add: confidenceScore_confident_world)

section \<open>The thinking loop: what its steps change\<close>

lemma control_only_env: "only_env w w' \<Longrightarrow> control w' = control w"
  by (simp add: only_env_def control_def)

lemma phases_only_env: "only_env w w' \<Longrightarrow> phases w' = phases w"
  by (simp add: only_env_def phases_def)

lemma control_addThought [simp]: "control (addThought td w) = control w"
  by (simp add: control_def addThought_def Let_def split_beta updateFocusBasedOnThought_def
        split: ThoughtPhase.splits)

lemma phases_addThought [simp]: "phases (addThought td w) = phases w @ [thought_phase td]"
  by (simp add: phases_def addThought_def Let_def split_beta)

lemma thought_phase_thoughtData [simp]: "thought_phase (thoughtData ph txt conf ev trig atype aparams rfl) = ph"
  by (simp add: thoughtData_def)

lemma control_addThinkingStep [simp]: "control (addThinkingStep ph act rsn conf ev nxt w) = control w"
  by (simp add: control_def addThinkingStep_def split_beta)

lemma phases_addThinkingStep [simp]: "phases (addThinkingStep ph act rsn conf ev nxt w) = phases w"
  by (simp add: phases_def addThinkingStep_def split_beta)

lemma control_buildDecisionContext [simp]: "control (snd (buildDecisionContext T w)) = control w"
  by (simp add: control_def buildDecisionContext_def split_beta)

lemma phases_buildDecisionContext [simp]: "phases (snd (buildDecisionContext T w)) = phases w"
  by (simp add: phases_def buildDecisionContext_def split_beta)

lemma control_toughReasoning [simp]: "control (snd (toughReasoning T m c w)) = control w"
  by (simp add: control_only_env[OF only_env_toughReasoning])

lemma phases_toughReasoning [simp]: "phases (snd (toughReasoning T m c w)) = phases w"
  by (simp add: phases_only_env[OF only_env_toughReasoning])

lemma control_makeFinalDecision [simp]: "control (snd (makeFinalDecision T w)) = control w"
  by (simp add: makeFinalDecision_def Let_def split_beta)

lemma phases_makeFinalDecision [simp]: "phases (snd (makeFinalDecision T w)) = phases w"
  by (simp add: makeFinalDecision_def Let_def split_beta)

lemma control_analyzeCurrentSituation [simp]: "control (snd (analyzeCurrentSituation T w)) = control w"
  by (simp add: analyzeCurrentSituation_def Let_def)

lemma phases_analyzeCurrentSituation [simp]: "phases (snd (analyzeCurrentSituation T w)) = phases w @ [T_THINK]"
  by (simp add: analyzeCurrentSituation_def Let_def)

lemma control_exploration_thoughts [simp]: "control (exploration_thoughts st w) = control w"
  by (induction st arbitrary: w) simp_all

lemma phases_exploration_thoughts [simp]:
  "phases (exploration_thoughts st w) = phases w @ replicate (length st) T_EXPLORE"
  by (induction st arbitrary: w) (simp_all add: replicate_app_Cons_same)

lemma control_performIntelligentExploration [simp]: "control (performIntelligentExploration st w) = control w"
  by (simp add: performIntelligentExploration_def Let_def)

lemma phases_performIntelligentExploration [simp]:
  "phases (performIntelligentExploration st w) = phases w @ T_EXPLORE # replicate (length st) T_EXPLORE @ [T_REFLECT]"
  by (simp add: performIntelligentExploration_def Let_def)

lemma control_performDeepReasoning [simp]: "control (performDeepReasoning T w) = control w"
  by (simp add: performDeepReasoning_def Let_def split_beta)

lemma phases_performDeepReasoning [simp]: "phases (performDeepReasoning T w) = phases w @ [T_THINK, T_THINK]"
  by (simp add: performDeepReasoning_def Let_def split_beta)

lemma control_makeIntelligentDecision [simp]: "control (snd (makeIntelligentDecision T w)) = control w"
  by (simp add: makeIntelligentDecision_def Let_def split_beta)

lemma phases_makeIntelligentDecision [simp]:
  "phases (snd (makeIntelligentDecision T w)) = phases w @ [T_EXECUTE, T_EXECUTE]"
  by (simp add: makeIntelligentDecision_def Let_def split_beta)

lemma thoughtProcess_makeIntelligentDecision:
  "map thought_phase (thoughtProcess (fst (makeIntelligentDecision T w))) = phases w @ [T_EXECUTE, T_EXECUTE]"
  using phases_makeIntelligentDecision[of T w]
  by (simp add: makeIntelligentDecision_def Let_def split_beta phases_def)

lemma analysis_flags:
  "needsMoreExploration (fst (analyzeCurrentSituation T w))
   \<or> needsDeepReasoning (fst (analyzeCurrentSituation T w))
   \<or> canMakeDecision (fst (analyzeCurrentSituation T w))"
  by (simp add: analyzeCurrentSituation_def Let_def)

section \<open>The cache check before an action\<close>

text \<open>The branch that would raise is never taken: a key that is explored has an entry.\<close>

lemma thinkBeforeAction_total: "thinkBeforeAction T tool params w \<noteq> Inl err"
  by (auto simp add: thinkBeforeAction_def Let_def hasExplored_def getCachedResult_def split: option.splits)

lemma thinkBeforeAction_cache_hit:
  assumes "getCachedResult (pad w) tool (extractQueryFromTool T tool params) (p_path params) = Some e"
  shows "outcome (thinkBeforeAction T tool params w) = Inr (False, or_number (confidence e) 0.8)"
  using assms by (simp add: thinkBeforeAction_def outcome_def Let_def hasExplored_def getCachedResult_def)

text \<open>The cache holds the entry written last under a key, with the timestamp it was given.\<close>

lemma getCachedResult_addEntry:
  "getCachedResult (pad (addEntry entry w)) (toolName entry) (query entry) (filePath entry)
     = Some (entry\<lparr>timestamp := now_readings (env w) (now_count (env w))\<rparr>)"
  by (simp add: getCachedResult_def addEntry_def Let_def Date_now_def)

lemma calculateResultConfidence_nonzero: "calculateResultConfidence res \<noteq> 0"
  by (simp add: calculateResultConfidence_def split: ToolResponse.splits)

text \<open>
  For a result stored by \<^verbatim>\<open>analyzeResult\<close>, whose confidence is one of 0.3, 0.7, 0.8 and
  0.9, a second \<^verbatim>\<open>thinkBeforeAction\<close> with the same tool and parameters does not proceed
  and returns the stored confidence.
\<close>

lemma thinkBeforeAction_after_analyzeResult:
  "outcome (thinkBeforeAction T tool params (snd (analyzeResult T tool params res w)))
     = Inr (False, calculateResultConfidence res)"
proof -
  let ?e = "\<lparr>toolName = tool, query = extractQueryFromTool T tool params, result = res,
             confidence = calculateResultConfidence res, tags = generateResultTags T tool params,
             filePath = p_path params, timestamp = 0, relevance = 1.0, toolParams = params\<rparr>"
  let ?w = "snd (analyzeResult T tool params res w)"
  have "pad ?w = pad (addEntry ?e w)"
    by (simp add: analyzeResult_def Let_def addThinkingStep_def split_beta)
  then have "getCachedResult (pad ?w) tool (extractQueryFromTool T tool params) (p_path params)
     = Some (?e\<lparr>timestamp := now_readings (env w) (now_count (env w))\<rparr>)"
    using getCachedResult_addEntry[of ?e w] by simp
  from thinkBeforeAction_cache_hit[OF this] show ?thesis
    by (simp add: or_number_def calculateResultConfidence_nonzero)
qed

text \<open>
  C2: when an entry is cached under the key derived from the tool and its parameters,
  \<^verbatim>\<open>thinkBeforeAction\<close> returns \<open>shouldProceed = false\<close> and the cached entry's confidence.
  For a cached entry of confidence 0 it does not proceed, but the confidence returned is
  0.8: the expression \<^verbatim>\<open>cachedResult?.confidence || 0.8\<close> takes the stored 0 for a
  missing value.
\<close>

theorem thinkBeforeAction_zero_confidence_cached:
  "map_option confidence
     (getCachedResult (pad (addEntry (example_entry (utf16 ''search_files'') (utf16 ''auth'') None 0) (new_World example_env)))
        (utf16 ''search_files'') (utf16 ''auth'') None) = Some 0
   \<and> outcome (thinkBeforeAction example_tools (utf16 ''search_files'')
        \<lparr>p_regex = Some (utf16 ''auth''), p_query = None, p_path = None, p_stringified = utf16 ''{}''\<rparr>
        (addEntry (example_entry (utf16 ''search_files'') (utf16 ''auth'') None 0) (new_World example_env)))
      = Inr (False, 0.8)"
proof -
  let ?e = "example_entry (utf16 ''search_files'') (utf16 ''auth'') None 0"
  let ?w = "addEntry ?e (new_World example_env)"
  let ?p = "\<lparr>p_regex = Some (utf16 ''auth''), p_query = None, p_path = None, p_stringified = utf16 ''{}''\<rparr>"
  let ?t = "now_readings (env (new_World example_env)) (now_count (env (new_World example_env)))"
  have c: "getCachedResult (pad ?w) (utf16 ''search_files'') (utf16 ''auth'') None = Some (?e\<lparr>timestamp := ?t\<rparr>)"
    using getCachedResult_addEntry[of ?e "new_World example_env"] by (simp add: example_entry_def)
  have q: "extractQueryFromTool example_tools (utf16 ''search_files'') ?p = utf16 ''auth''"
    by (simp add: extractQueryFromTool_def example_tools_def or_string_def)
  have "outcome (thinkBeforeAction example_tools (utf16 ''search_files'') ?p ?w)
     = Inr (False, or_number (confidence (?e\<lparr>timestamp := ?t\<rparr>)) 0.8)"
    by (rule thinkBeforeAction_cache_hit) (simp add: q c)
  then show ?thesis
    using c by (simp add: or_number_def example_entry_def)
qed

section \<open>The cache status report\<close>

text \<open>
  C9, as stated: on a cache hit the report shows a preview of the payload of at most 100
  characters. A cached payload of 200 characters is shown whole.
\<close>

theorem checkCacheStatus_preview_longer_than_100:
  "hasExplored (pad long_payload_world) (utf16 ''read_file'') (utf16 ''big.txt'') None
   \<and> last (checkCacheStatus (utf16 ''read_file'') (utf16 ''big.txt'') None long_payload_world) = S (utf16 (replicate 200 (CHR ''a'')))
   \<and> length (utf16 (replicate 200 (CHR ''a''))) = 200"
  by (simp add: long_payload_world_def checkCacheStatus_def hasExplored_def getCachedResult_def
        addEntry_def Let_def split_beta Date_now_def example_entry_def handler_truncateResult_def)

text \<open>
  C9, amended: on a cache hit the report ends with the cached entry's confidence,
  timestamp, tags and relevance and a preview of its payload: the payload itself when it
  has at most 500 characters, else its first 500 characters followed by an ellipsis.
\<close>

theorem checkCacheStatus_cache_hit:
  assumes "getCachedResult (pad w) tool q fp = Some c"
  shows "(\<exists>heading. checkCacheStatus tool q fp w =
           heading @
           [S (utf16 ''### Cached Result:''), S (utf16 [CHR 0x0A]),
            S (utf16 ''- Confidence: ''), Fixed 1 (confidence c * 100), S (utf16 ''%''), S (utf16 [CHR 0x0A]),
            S (utf16 ''- Timestamp: ''), LocaleString (timestamp c), S (utf16 [CHR 0x0A]),
            S (utf16 ''- Tags: ''), S (join (utf16 '', '') (tags c)), S (utf16 [CHR 0x0A]),
            S (utf16 ''- Relevance: ''), Fixed 1 (relevance c * 100), S (utf16 ''%''), S (utf16 [CHR 0x0A, CHR 0x0A]),
            S (utf16 ''**Result:** ''), S (handler_truncateResult (result c))])
     \<and> handler_truncateResult (result c) =
           (if length (payload_text (result c)) \<le> 500 then payload_text (result c)
            else take 500 (payload_text (result c)) @ utf16 ''...'')
     \<and> length (handler_truncateResult (result c)) \<le> 503"
proof (intro conjI)
  show "\<exists>heading. checkCacheStatus tool q fp w =
           heading @
           [S (utf16 ''### Cached Result:''), S (utf16 [CHR 0x0A]),
            S (utf16 ''- Confidence: ''), Fixed 1 (confidence c * 100), S (utf16 ''%''), S (utf16 [CHR 0x0A]),
            S (utf16 ''- Timestamp: ''), LocaleString (timestamp c), S (utf16 [CHR 0x0A]),
            S (utf16 ''- Tags: ''), S (join (utf16 '', '') (tags c)), S (utf16 [CHR 0x0A]),
            S (utf16 ''- Relevance: ''), Fixed 1 (relevance c * 100), S (utf16 ''%''), S (utf16 [CHR 0x0A, CHR 0x0A]),
            S (utf16 ''**Result:** ''), S (handler_truncateResult (result c))]"
    using assms unfolding checkCacheStatus_def Let_def by (simp del: append_assoc)
  show "handler_truncateResult (result c) =
           (if length (payload_text (result c)) \<le> 500 then payload_text (result c)
            else take 500 (payload_text (result c)) @ utf16 ''...'')"
    by (simp add: handler_truncateResult_def payload_text_def Let_def)
  show "length (handler_truncateResult (result c)) \<le> 503"
    by (simp add: handler_truncateResult_def Let_def)
qed

text \<open>The report for the cached file of 200 letters: the preview is the file.\<close>

theorem checkCacheStatus_cache_hit_witness:
  "getCachedResult (pad long_payload_world) (utf16 ''read_file'') (utf16 ''big.txt'') None
     = Some ((example_entry (utf16 ''read_file'') (utf16 ''big.txt'') None 0.9)
               \<lparr>result := Text (utf16 (replicate 200 (CHR ''a''))), timestamp := 1400\<rparr>)
   \<and> handler_truncateResult (Text (utf16 (replicate 200 (CHR ''a'')))) = utf16 (replicate 200 (CHR ''a''))
   \<and> length (handler_truncateResult (Text (utf16 (replicate 200 (CHR ''a''))))) \<le> 503"
proof -
  have c: "getCachedResult (pad long_payload_world) (utf16 ''read_file'') (utf16 ''big.txt'') None
     = Some ((example_entry (utf16 ''read_file'') (utf16 ''big.txt'') None 0.9)
               \<lparr>result := Text (utf16 (replicate 200 (CHR ''a''))), timestamp := 1400\<rparr>)"
    by (simp add: long_payload_world_def getCachedResult_def addEntry_def Let_def split_beta Date_now_def
          example_entry_def new_World_def new_ExplorationScratchpad_def new_ThinkingEngine_def
          example_env_def generateCacheKey_def toLowerCase_def)
  show ?thesis
    using checkCacheStatus_cache_hit[OF c] c by (simp add: payload_text_def example_entry_def)
qed

section \<open>The thinking loop: classification and invariants\<close>

lemma analyzeCurrentSituation_classify:
  "fst (analyzeCurrentSituation T w) =
     analysis_of (classify (totalEntries (generateSummary T (pad w))) (confidenceScore (generateSummary T (pad w)))
                    (currentPhase (pad w)) (iteration_of w))"
  by (simp add: analyzeCurrentSituation_def Let_def classify_def analysis_of_def iteration_of_def getCurrentPhase_def)

lemma settled_control: "control w' = control w \<Longrightarrow> settled w' = settled w"
  by (simp add: control_def settled_def Let_def)

lemma settled_next_iteration [simp]: "settled (next_iteration w) = settled w"
  by (simp add: settled_def next_iteration_def Let_def)

lemma settled_stop_thinking [simp]: "settled (stop_thinking w) = settled w"
  by (simp add: settled_def stop_thinking_def Let_def)

lemma settled_steps [simp]:
  "settled (snd (analyzeCurrentSituation T w)) = settled w"
  "settled (performIntelligentExploration st w) = settled w"
  "settled (performDeepReasoning T w) = settled w"
  "settled (snd (makeIntelligentDecision T w)) = settled w"
  by (rule settled_control, simp)+

text \<open>The loop, one case at a time.\<close>

lemma loop_stop:
  assumes "\<not> (iteration_of w < m \<and> isThinkingActive (intelligentThinkingSystem w))"
  shows "executeThinkingLoop_while T m w =
           (case makeIntelligentDecision T w of (d, w') \<Rightarrow> (d, stop_thinking w'))"
  by (subst executeThinkingLoop_while.simps) (simp only: assms if_False Let_def)

lemma loop_explore:
  assumes "iteration_of w < m \<and> isThinkingActive (intelligentThinkingSystem w)"
      and "analyzeCurrentSituation T (next_iteration w) = (a, w1)"
      and "needsMoreExploration a"
  shows "executeThinkingLoop_while T m w =
           executeThinkingLoop_while T m (performIntelligentExploration (explorationStrategy a) w1)"
  by (subst executeThinkingLoop_while.simps) (simp only: assms if_True Let_def prod.case simp_thms)

lemma loop_deep:
  assumes "iteration_of w < m \<and> isThinkingActive (intelligentThinkingSystem w)"
      and "analyzeCurrentSituation T (next_iteration w) = (a, w1)"
      and "\<not> needsMoreExploration a" and "needsDeepReasoning a"
  shows "executeThinkingLoop_while T m w = executeThinkingLoop_while T m (performDeepReasoning T w1)"
  by (subst executeThinkingLoop_while.simps) (simp only: assms if_True if_False Let_def prod.case simp_thms)

lemma loop_decide:
  assumes "iteration_of w < m \<and> isThinkingActive (intelligentThinkingSystem w)"
      and "analyzeCurrentSituation T (next_iteration w) = (a, w1)"
      and "\<not> needsMoreExploration a" and "\<not> needsDeepReasoning a" and "canMakeDecision a"
  shows "executeThinkingLoop_while T m w =
           (case makeIntelligentDecision T w1 of (d, w2) \<Rightarrow> (d, stop_thinking w2))"
  by (subst executeThinkingLoop_while.simps) (simp only: assms if_True if_False Let_def prod.case simp_thms)

text \<open>
  Every classification sets one of the three flags, so each iteration continues or
  returns before the reflection and convergence steps: the loop writes none of the settled
  parts.
\<close>

lemma executeThinkingLoop_while_settled:
  "settled (snd (executeThinkingLoop_while T m w)) = settled w"
proof (induction T m w rule: executeThinkingLoop_while.induct)
  case (1 T m w)
  obtain a w1 where aw: "analyzeCurrentSituation T (next_iteration w) = (a, w1)"
    by (cases "analyzeCurrentSituation T (next_iteration w)") auto
  have w1: "settled w1 = settled w"
    using settled_steps(1)[of T "next_iteration w"] by (simp add: aw)
  have flags: "needsMoreExploration a \<or> needsDeepReasoning a \<or> canMakeDecision a"
    using analysis_flags[of T "next_iteration w"] by (simp add: aw)
  show ?case
  proof (cases "iteration_of w < m \<and> isThinkingActive (intelligentThinkingSystem w)")
    case False
    show ?thesis
      by (simp add: loop_stop[OF False] split_beta)
  next
    case True
    note c = True
    show ?thesis
    proof (cases "needsMoreExploration a")
      case True
      have "settled (snd (executeThinkingLoop_while T m (performIntelligentExploration (explorationStrategy a) w1)))
            = settled (performIntelligentExploration (explorationStrategy a) w1)"
        using "1.IH"(1)[OF c refl aw[symmetric] True] .
      then show ?thesis
        by (simp add: loop_explore[OF c aw True] w1)
    next
      case False
      note ne = False
      show ?thesis
      proof (cases "needsDeepReasoning a")
        case True
        have "settled (snd (executeThinkingLoop_while T m (performDeepReasoning T w1)))
              = settled (performDeepReasoning T w1)"
          using "1.IH"(2)[OF c refl aw[symmetric] ne True] .
        then show ?thesis
          by (simp add: loop_deep[OF c aw ne True] w1)
      next
        case False
        with ne flags have "canMakeDecision a" by simp
        then show ?thesis
          by (simp add: loop_decide[OF c aw ne False] split_beta w1)
      qed
    qed
  qed
qed

lemma control_set_totalIterations [simp]: "control (set_totalIterations m w) = control w"
  by (simp add: control_def set_totalIterations_def Let_def)

lemma phases_set_totalIterations [simp]: "phases (set_totalIterations m w) = phases w"
  by (simp add: phases_def set_totalIterations_def Let_def)

lemma phases_next_iteration [simp]: "phases (next_iteration w) = phases w"
  by (simp add: phases_def next_iteration_def Let_def)

lemma phases_stop_thinking [simp]: "phases (stop_thinking w) = phases w"
  by (simp add: phases_def stop_thinking_def)

lemma pad_next_iteration [simp]: "pad (next_iteration w) = pad w"
  by (simp add: next_iteration_def Let_def)

lemma iteration_of_stop_thinking [simp]: "iteration_of (stop_thinking w) = iteration_of w"
  by (simp add: iteration_of_def stop_thinking_def)

lemma control_fields:
  assumes "control w' = control w"
  shows "pad w' = pad w" and "iteration_of w' = iteration_of w"
    and "isThinkingActive (intelligentThinkingSystem w') = isThinkingActive (intelligentThinkingSystem w)"
  using assms by (simp_all add: control_def iteration_of_def Let_def)

lemma iteration_of_makeIntelligentDecision [simp]:
  "iteration_of (snd (makeIntelligentDecision T w)) = iteration_of w"
  by (rule control_fields(2)) simp

lemma pad_set_totalIterations [simp]: "pad (set_totalIterations m w) = pad w"
  by (simp add: set_totalIterations_def Let_def)

lemma iteration_of_set_totalIterations [simp]: "iteration_of (set_totalIterations m w) = iteration_of w"
  by (simp add: set_totalIterations_def iteration_of_def Let_def)

lemma isThinkingActive_set_totalIterations [simp]:
  "isThinkingActive (intelligentThinkingSystem (set_totalIterations m w)) = isThinkingActive (intelligentThinkingSystem w)"
  by (simp add: set_totalIterations_def Let_def)

text \<open>
  A first iteration on a store that classifies as can-decide: the loop returns the
  decision in that iteration.
\<close>

lemma first_iteration_can_decide:
  assumes m: "0 < m"
      and i0: "iteration_of w = 0" and act: "isThinkingActive (intelligentThinkingSystem w)"
      and score: "0.8 \<le> confidenceScore (generateSummary T (pad w))"
      and br: "\<not> (totalEntries (generateSummary T (pad w)) < 3 \<and> currentPhase (pad w) = EXPLORE)"
  shows "fst (analyzeCurrentSituation T (next_iteration (set_totalIterations m w))) = analysis_of Can_decide
     \<and> executeThinkingLoop T m w =
         (case makeIntelligentDecision T (snd (analyzeCurrentSituation T (next_iteration (set_totalIterations m w))))
          of (d, w2) \<Rightarrow> (d, stop_thinking w2))
     \<and> iteration_of (snd (executeThinkingLoop T m w)) = 1
     \<and> map thought_phase (thoughtProcess (fst (executeThinkingLoop T m w))) = phases w @ [T_THINK, T_EXECUTE, T_EXECUTE]"
proof -
  let ?w0 = "set_totalIterations m w"
  let ?w1 = "next_iteration ?w0"
  obtain a w2 where aw: "analyzeCurrentSituation T ?w1 = (a, w2)"
    by (cases "analyzeCurrentSituation T ?w1") auto
  have c: "iteration_of ?w0 < m \<and> isThinkingActive (intelligentThinkingSystem ?w0)"
    using i0 act m by simp
  have "classify (totalEntries (generateSummary T (pad ?w1))) (confidenceScore (generateSummary T (pad ?w1)))
          (currentPhase (pad ?w1)) (iteration_of ?w1) = Can_decide"
    using score br by (auto simp add: classify_def)
  then have a: "a = analysis_of Can_decide"
    using analyzeCurrentSituation_classify[of T ?w1] by (simp add: aw)
  have flags: "\<not> needsMoreExploration a" "\<not> needsDeepReasoning a" "canMakeDecision a"
    by (simp_all add: a analysis_of_def)
  have loop: "executeThinkingLoop T m w = (case makeIntelligentDecision T w2 of (d, w3) \<Rightarrow> (d, stop_thinking w3))"
    unfolding executeThinkingLoop_def by (rule loop_decide[OF c aw flags])
  have it2: "iteration_of w2 = 1"
    using iteration_of_analyzeCurrentSituation[of T ?w1] i0 by (simp add: aw)
  have ph2: "phases w2 = phases w @ [T_THINK]"
    using phases_analyzeCurrentSituation[of T ?w1] by (simp add: aw)
  show ?thesis
    using a loop it2 ph2 thoughtProcess_makeIntelligentDecision[of T w2]
    by (simp add: aw split_beta)
qed

text \<open>
  A first iteration that classifies as needs-exploration records the exploration thoughts
  and continues; with \<open>maxIterations = 1\<close> the loop is then exhausted and the decision
  is forced after it.
\<close>

lemma one_iteration_exploration:
  assumes i0: "iteration_of w = 0" and act: "isThinkingActive (intelligentThinkingSystem w)"
      and br: "classify (totalEntries (generateSummary T (pad w))) (confidenceScore (generateSummary T (pad w)))
                 (currentPhase (pad w)) 1 = Needs_exploration strategy"
  shows "fst (analyzeCurrentSituation T (next_iteration (set_totalIterations m w)))
           = analysis_of (Needs_exploration strategy)
     \<and> (m = 1 \<longrightarrow>
          iteration_of (snd (executeThinkingLoop T m w)) = 1
          \<and> map thought_phase (thoughtProcess (fst (executeThinkingLoop T m w)))
              = phases w @ [T_THINK, T_EXPLORE] @ replicate (length strategy) T_EXPLORE
                  @ [T_REFLECT, T_EXECUTE, T_EXECUTE])"
proof -
  let ?w0 = "set_totalIterations m w"
  let ?w1 = "next_iteration ?w0"
  obtain a w2 where aw: "analyzeCurrentSituation T ?w1 = (a, w2)"
    by (cases "analyzeCurrentSituation T ?w1") auto
  have a: "a = analysis_of (Needs_exploration strategy)"
    using analyzeCurrentSituation_classify[of T ?w1] br i0 by (simp add: aw)
  have flags: "needsMoreExploration a" and st: "explorationStrategy a = strategy"
    by (simp_all add: a analysis_of_def)
  have it2: "iteration_of w2 = 1"
    using iteration_of_analyzeCurrentSituation[of T ?w1] i0 by (simp add: aw)
  have ph2: "phases w2 = phases w @ [T_THINK]"
    using phases_analyzeCurrentSituation[of T ?w1] by (simp add: aw)
  let ?w3 = "performIntelligentExploration strategy w2"
  have stop: "\<not> (iteration_of ?w3 < 1 \<and> isThinkingActive (intelligentThinkingSystem ?w3))"
    using it2 by simp
  { assume m1: "m = 1"
    have c: "iteration_of ?w0 < m \<and> isThinkingActive (intelligentThinkingSystem ?w0)"
      using i0 act m1 by simp
    have "executeThinkingLoop T m w = executeThinkingLoop_while T m ?w3"
      unfolding executeThinkingLoop_def using loop_explore[OF c aw flags] by (simp add: st)
    also have "\<dots> = (case makeIntelligentDecision T ?w3 of (d, w') \<Rightarrow> (d, stop_thinking w'))"
      using loop_stop[OF stop, of T] by (simp add: m1)
    finally have "iteration_of (snd (executeThinkingLoop T m w)) = 1
          \<and> map thought_phase (thoughtProcess (fst (executeThinkingLoop T m w)))
              = phases w @ [T_THINK, T_EXPLORE] @ replicate (length strategy) T_EXPLORE
                  @ [T_REFLECT, T_EXECUTE, T_EXECUTE]"
      using it2 ph2 thoughtProcess_makeIntelligentDecision[of T ?w3]
      by (simp add: split_beta) }
  then show ?thesis
    using a by (simp add: aw)
qed

section \<open>Example runs of the thinking loop\<close>

text \<open>The state after \<^verbatim>\<open>initializeIntelligentThinking\<close> and of a new world.\<close>

lemma control_fields':
  assumes "control w' = control w"
  shows "convergenceLevel (conversationContext (intelligentThinkingSystem w'))
         = convergenceLevel (conversationContext (intelligentThinkingSystem w))"
  using assms by (simp add: control_def Let_def)

lemma initializeIntelligentThinking_state:
  "pad (initializeIntelligentThinking T d w) = pad w"
  "iteration_of (initializeIntelligentThinking T d w) = 0"
  "isThinkingActive (intelligentThinkingSystem (initializeIntelligentThinking T d w))"
  "phases (initializeIntelligentThinking T d w) = phases w @ [T_THINK, T_THINK]"
  "convergenceLevel (conversationContext (intelligentThinkingSystem (initializeIntelligentThinking T d w)))
     = convergenceLevel (conversationContext (intelligentThinkingSystem w))"
proof -
  let ?w0 = "w\<lparr>intelligentThinkingSystem :=
               (intelligentThinkingSystem w)\<lparr>conversationContext :=
                   (conversationContext (intelligentThinkingSystem w))\<lparr>taskDescription := d, currentIteration := 0\<rparr>,
                 isThinkingActive := True\<rparr>\<rparr>"
  have c0: "control ?w0 = (pad w, 0, True, convergenceThreshold (intelligentThinkingSystem w),
              convergenceLevel (conversationContext (intelligentThinkingSystem w)),
              lastActionResult (conversationContext (intelligentThinkingSystem w)))"
    by (simp add: control_def Let_def)
  have c: "control (initializeIntelligentThinking T d w) = control ?w0"
    by (simp add: initializeIntelligentThinking_def Let_def)
  show "pad (initializeIntelligentThinking T d w) = pad w"
    using control_fields(1)[OF c] by simp
  show "iteration_of (initializeIntelligentThinking T d w) = 0"
    using control_fields(2)[OF c] by (simp add: iteration_of_def)
  show "isThinkingActive (intelligentThinkingSystem (initializeIntelligentThinking T d w))"
    using control_fields(3)[OF c] by simp
  show "convergenceLevel (conversationContext (intelligentThinkingSystem (initializeIntelligentThinking T d w)))
     = convergenceLevel (conversationContext (intelligentThinkingSystem w))"
    using control_fields'[OF c] by simp
  have "phases ?w0 = phases w"
    by (simp add: phases_def)
  then show "phases (initializeIntelligentThinking T d w) = phases w @ [T_THINK, T_THINK]"
    by (simp add: initializeIntelligentThinking_def Let_def)
qed

lemma new_World_state:
  "entries (pad (new_World e)) = []"
  "currentPhase (pad (new_World e)) = EXPLORE"
  "phases (new_World e) = []"
  "convergenceLevel (conversationContext (intelligentThinkingSystem (new_World e))) = 0"
  by (simp_all add: new_World_def new_ExplorationScratchpad_def new_ThinkingEngine_def split_beta
        phases_def new_IntelligentThinkingSystem_def)

lemma addEntry_state [simp]:
  "currentPhase (pad (addEntry x w)) = currentPhase (pad w)"
  "intelligentThinkingSystem (addEntry x w) = intelligentThinkingSystem w"
  by (simp_all add: addEntry_def Let_def split_beta)

lemma addEntries_state [simp]:
  "currentPhase (pad (addEntries es w)) = currentPhase (pad w)"
  "intelligentThinkingSystem (addEntries es w) = intelligentThinkingSystem w"
  by (induction es arbitrary: w) simp_all

lemma phases_addEntries [simp]: "phases (addEntries es w) = phases w"
  by (simp add: phases_def)

lemma confidence_example_entry [simp]: "confidence (example_entry tool q fp c) = c"
  by (simp add: example_entry_def)

lemma explored_world_state:
  "iteration_of (explored_world cs) = 0"
  "isThinkingActive (intelligentThinkingSystem (explored_world cs))"
  "phases (explored_world cs) = [T_THINK, T_THINK]"
  "currentPhase (pad (explored_world cs)) = EXPLORE"
  "length (entries (pad (explored_world cs))) = length cs"
  "confidenceScore (generateSummary T (pad (explored_world cs))) = (if cs = [] then 0 else sum_list cs / real (length cs))"
  "convergenceLevel (conversationContext (intelligentThinkingSystem (explored_world cs))) = 0"
proof -
  let ?w = "addEntries (map (example_entry (utf16 ''read_file'') (utf16 ''validation.js'') None) cs) (new_World example_env)"
  have len: "length (entries (pad ?w)) = length cs"
    by (simp add: length_entries_addEntries new_World_state)
  have sum: "sum_list (map confidence (entries (pad ?w))) = sum_list cs"
    by (simp add: sum_confidence_addEntries new_World_state comp_def)
  have nil: "entries (pad ?w) = [] \<longleftrightarrow> cs = []"
    using len by (metis length_0_conv)
  show "iteration_of (explored_world cs) = 0"
    by (simp add: explored_world_def initializeIntelligentThinking_state)
  show "isThinkingActive (intelligentThinkingSystem (explored_world cs))"
    by (simp add: explored_world_def initializeIntelligentThinking_state)
  show "phases (explored_world cs) = [T_THINK, T_THINK]"
    by (simp add: explored_world_def initializeIntelligentThinking_state new_World_state)
  show "currentPhase (pad (explored_world cs)) = EXPLORE"
    by (simp add: explored_world_def initializeIntelligentThinking_state new_World_state)
  show "length (entries (pad (explored_world cs))) = length cs"
    by (simp add: explored_world_def initializeIntelligentThinking_state len)
  show "confidenceScore (generateSummary T (pad (explored_world cs))) = (if cs = [] then 0 else sum_list cs / real (length cs))"
    by (simp add: explored_world_def initializeIntelligentThinking_state confidenceScore_generateSummary len sum nil)
  show "convergenceLevel (conversationContext (intelligentThinkingSystem (explored_world cs))) = 0"
    by (simp add: explored_world_def initializeIntelligentThinking_state new_World_state)
qed

section \<open>One iteration of the thinking loop\<close>

text \<open>
  C7, as stated: \<^verbatim>\<open>executeThinkingLoop(1)\<close> on a store whose confidence score is at least
  0.8 decides through the can-decide branch. A store in phase EXPLORE with a single entry
  of confidence 0.9 is classified by branch (i), which comes first: the iteration records
  the analysis and the exploration thoughts, and the decision is the one forced after the
  loop.
\<close>

theorem executeThinkingLoop_sparse_store_explores:
  "0.8 \<le> confidenceScore (generateSummary example_tools (pad sparse_world))
   \<and> iteration_of sparse_world = 0 \<and> isThinkingActive (intelligentThinkingSystem sparse_world)
   \<and> fst (analyzeCurrentSituation example_tools (next_iteration (set_totalIterations 1 sparse_world)))
       = analysis_of (Needs_exploration [utf16 ''auto_explore'', utf16 ''read_key_files'', utf16 ''search_patterns''])
   \<and> map thought_phase (thoughtProcess (fst (executeThinkingLoop example_tools 1 sparse_world)))
       = [T_THINK, T_THINK, T_THINK, T_EXPLORE, T_EXPLORE, T_EXPLORE, T_EXPLORE, T_REFLECT, T_EXECUTE, T_EXECUTE]"
proof -
  have "classify (totalEntries (generateSummary example_tools (pad sparse_world)))
          (confidenceScore (generateSummary example_tools (pad sparse_world)))
          (currentPhase (pad sparse_world)) 1
        = Needs_exploration [utf16 ''auto_explore'', utf16 ''read_key_files'', utf16 ''search_patterns'']"
    by (simp add: sparse_world_def explored_world_state classify_def)
  from one_iteration_exploration[OF _ _ this, of 1] show ?thesis
    by (simp add: sparse_world_def explored_world_state)
qed

text \<open>
  C7, amended: after \<^verbatim>\<open>initializeIntelligentThinking\<close> (iteration counter 0, thinking
  active), \<^verbatim>\<open>executeThinkingLoop(1)\<close> on a store whose confidence score is at least 0.8
  and which has at least 3 entries or is not in phase EXPLORE classifies the situation as
  can-decide and returns the decision of \<^verbatim>\<open>makeIntelligentDecision\<close> in exactly one
  iteration, recording one analysis thought and the two decision thoughts. In every state
  the classification is the first match of (i) to (iv).
\<close>

theorem executeThinkingLoop_one_iteration_can_decide:
  assumes "iteration_of w = 0" and "isThinkingActive (intelligentThinkingSystem w)"
      and "0.8 \<le> confidenceScore (generateSummary T (pad w))"
      and "\<not> (totalEntries (generateSummary T (pad w)) < 3 \<and> currentPhase (pad w) = EXPLORE)"
  shows "fst (analyzeCurrentSituation T (next_iteration (set_totalIterations 1 w))) = analysis_of Can_decide
     \<and> executeThinkingLoop T 1 w =
         (case makeIntelligentDecision T (snd (analyzeCurrentSituation T (next_iteration (set_totalIterations 1 w))))
          of (d, w2) \<Rightarrow> (d, stop_thinking w2))
     \<and> iteration_of (snd (executeThinkingLoop T 1 w)) = 1
     \<and> map thought_phase (thoughtProcess (fst (executeThinkingLoop T 1 w))) = phases w @ [T_THINK, T_EXECUTE, T_EXECUTE]
     \<and> fst (analyzeCurrentSituation T w') =
         analysis_of (classify (totalEntries (generateSummary T (pad w'))) (confidenceScore (generateSummary T (pad w')))
                        (currentPhase (pad w')) (iteration_of w'))"
proof -
  have "0 < (1::nat)"
    by simp
  from first_iteration_can_decide[OF this assms] analyzeCurrentSituation_classify[of T w']
  show ?thesis
    by (elim conjE) (intro conjI; assumption)
qed

theorem executeThinkingLoop_one_iteration_can_decide_witness:
  "0.8 \<le> confidenceScore (generateSummary example_tools (pad decided_world))
   \<and> iteration_of (snd (executeThinkingLoop example_tools 1 decided_world)) = 1
   \<and> map thought_phase (thoughtProcess (fst (executeThinkingLoop example_tools 1 decided_world)))
       = [T_THINK, T_THINK, T_THINK, T_EXECUTE, T_EXECUTE]"
proof -
  have h1: "iteration_of decided_world = 0"
    and h2: "isThinkingActive (intelligentThinkingSystem decided_world)"
    and h3: "0.8 \<le> confidenceScore (generateSummary example_tools (pad decided_world))"
    and h4: "\<not> (totalEntries (generateSummary example_tools (pad decided_world)) < 3
               \<and> currentPhase (pad decided_world) = EXPLORE)"
    by (simp_all add: decided_world_def explored_world_state)
  note t = executeThinkingLoop_one_iteration_can_decide[OF h1 h2 h3 h4, of decided_world]
  from t have i: "iteration_of (snd (executeThinkingLoop example_tools 1 decided_world)) = 1"
    by (elim conjE)
  from t have p: "map thought_phase (thoughtProcess (fst (executeThinkingLoop example_tools 1 decided_world)))
       = phases decided_world @ [T_THINK, T_EXECUTE, T_EXECUTE]"
    by (elim conjE)
  have "phases decided_world = [T_THINK, T_THINK]"
    by (simp add: decided_world_def explored_world_state)
  with h3 i p show ?thesis
    by simp
qed

section \<open>The convergence level\<close>

text \<open>\<^verbatim>\<open>updateConvergenceLevel\<close> computes the formula, and the formula stays in the unit interval.\<close>

lemma foldl_plus: "foldl (\<lambda>a b. a + b) a xs = (a :: real) + sum_list xs"
  by (induction xs arbitrary: a) auto

lemma foldl_squares: "foldl (\<lambda>sum conf. sum + (conf - m) ^ 2) a xs = (a :: real) + sum_list (map (\<lambda>c. (c - m) ^ 2) xs)"
  by (induction xs arbitrary: a) auto

lemma calculateThoughtConsistency_formula:
  "calculateThoughtConsistency sys = thought_consistency (map thought_confidence (thoughtChain sys))"
  by (simp add: calculateThoughtConsistency_def thought_consistency_def Let_def foldl_plus foldl_squares)

lemma updateConvergenceLevel_formula:
  "convergence_of (updateConvergenceLevel T w) =
     convergence_formula (confidenceScore (generateSummary T (pad w))) (iteration_of w) (thought_confidences w)"
  by (simp add: updateConvergenceLevel_def convergence_of_def convergence_formula_def Let_def
        calculateThoughtConsistency_formula iteration_of_def thought_confidences_def)

lemma thought_consistency_bounds: "0 \<le> thought_consistency cs \<and> thought_consistency cs \<le> 1"
proof (cases "length cs < 2")
  case True
  then show ?thesis by (simp add: thought_consistency_def)
next
  case False
  have "0 \<le> sum_list (map (\<lambda>c. (c - sum_list cs / real (length cs)) ^ 2) cs) / real (length cs)"
    by (intro divide_nonneg_nonneg sum_list_nonneg) auto
  then have "0 \<le> sqrt (sum_list (map (\<lambda>c. (c - sum_list cs / real (length cs)) ^ 2) cs) / real (length cs))"
    by simp
  with False show ?thesis
    by (simp add: thought_consistency_def Let_def)
qed

lemma convergence_formula_bounds:
  assumes "0 \<le> storeConfidence"
  shows "0 \<le> convergence_formula storeConfidence iteration cs \<and> convergence_formula storeConfidence iteration cs \<le> 1"
proof -
  have "0 \<le> min 0.3 (real iteration * 0.05)" by simp
  moreover have "0 \<le> 0.2 * thought_consistency cs"
    using thought_consistency_bounds[of cs] by simp
  ultimately show ?thesis
    using assms by (simp add: convergence_formula_def)
qed

lemma convergence_formula_lower:
  "min 1 (storeConfidence + min 0.3 (real iteration * 0.05)) \<le> convergence_formula storeConfidence iteration cs"
proof -
  have "0 \<le> 0.2 * thought_consistency cs"
    using thought_consistency_bounds[of cs] by simp
  then show ?thesis
    by (simp add: convergence_formula_def min_def)
qed

lemma settled_fields:
  assumes "settled w' = settled w"
  shows "pad w' = pad w" and "convergence_of w' = convergence_of w"
  using assms by (simp_all add: settled_def convergence_of_def Let_def)

lemma settled_set_totalIterations [simp]: "settled (set_totalIterations m w) = settled w"
  by (simp add: settled_def set_totalIterations_def Let_def)

lemma executeThinkingLoop_settled: "settled (snd (executeThinkingLoop T m w)) = settled w"
  by (simp add: executeThinkingLoop_def executeThinkingLoop_while_settled)

text \<open>
  The thinking loop never reaches \<^verbatim>\<open>updateConvergenceLevel\<close>: whatever the input, the
  convergence level and the scratchpad after the loop are those before it.
\<close>

lemma executeThinkingLoop_convergence:
  "convergence_of (snd (executeThinkingLoop T m w)) = convergence_of w
   \<and> pad (snd (executeThinkingLoop T m w)) = pad w"
  using settled_fields[OF executeThinkingLoop_settled[of T m w]] by simp

text \<open>
  C8: after a loop iteration the convergence level is the value of the convergence formula.
  On a store of five entries of confidence 0.5 in phase EXPLORE, one iteration of
  \<^verbatim>\<open>executeThinkingLoop(1)\<close> takes the targeted exploration branch and continues; the
  convergence level is still 0 afterwards, while the formula at that state (store
  confidence 0.5, iteration 1) is at least 0.55.
\<close>

theorem executeThinkingLoop_leaves_convergence_level:
  "convergence_of (snd (executeThinkingLoop example_tools 1 undecided_world)) = 0
   \<and> iteration_of (snd (executeThinkingLoop example_tools 1 undecided_world)) = 1
   \<and> confidenceScore (generateSummary example_tools (pad (snd (executeThinkingLoop example_tools 1 undecided_world)))) = 0.5
   \<and> 0.55 \<le> convergence_formula
        (confidenceScore (generateSummary example_tools (pad (snd (executeThinkingLoop example_tools 1 undecided_world)))))
        (iteration_of (snd (executeThinkingLoop example_tools 1 undecided_world)))
        (thought_confidences (snd (executeThinkingLoop example_tools 1 undecided_world)))"
proof -
  let ?f = "snd (executeThinkingLoop example_tools 1 undecided_world)"
  have c: "convergence_of ?f = 0" and p: "pad ?f = pad undecided_world"
    using executeThinkingLoop_convergence[of example_tools 1 undecided_world]
    by (simp_all add: undecided_world_def explored_world_state convergence_of_def)
  have s: "confidenceScore (generateSummary example_tools (pad ?f)) = 0.5"
    unfolding p by (simp add: undecided_world_def explored_world_state)
  have "classify (totalEntries (generateSummary example_tools (pad undecided_world)))
          (confidenceScore (generateSummary example_tools (pad undecided_world)))
          (currentPhase (pad undecided_world)) 1
        = Needs_exploration [utf16 ''targeted_search'', utf16 ''deep_file_analysis'']"
    by (simp add: undecided_world_def explored_world_state classify_def)
  from one_iteration_exploration[OF _ _ this, of 1]
  have i: "iteration_of ?f = 1"
    by (simp add: undecided_world_def explored_world_state)
  have "min 1 (0.5 + min 0.3 (real 1 * 0.05)) \<le> convergence_formula 0.5 1 (thought_confidences ?f)"
    by (rule convergence_formula_lower)
  then have "0.55 \<le> convergence_formula 0.5 1 (thought_confidences ?f)"
    by simp
  then have f: "0.55 \<le> convergence_formula (confidenceScore (generateSummary example_tools (pad ?f)))
                   (iteration_of ?f) (thought_confidences ?f)"
    unfolding s i .
  from c i s f show ?thesis
    by (intro conjI)
qed

end
